theory Spec2Isabelle
  imports Main
begin

section \<open>Python values\<close>

text \<open>
  The values that a log call can attach to a record. A dictionary is an association list in
  insertion order, which is the order \<^verbatim>\<open>json.dumps\<close> and \<^verbatim>\<open>repr\<close> print it in; its keys
  are strings. A string is a list of characters, each standing for the code point of the
  same number (0 to 255). \<open>PObj t\<close> is any other object: its \<^verbatim>\<open>str()\<close> and
  \<^verbatim>\<open>repr()\<close> are the text \<open>t\<close>, it is truthy, it is not a mapping and
  \<^verbatim>\<open>json.dumps\<close> rejects it. Floating-point numbers are left out.
\<close>

datatype pyval =
    PNone
  | PBool bool
  | PInt int
  | PStr string
  | PList "pyval list"
  | PDict "(string \<times> pyval) list"
  | PObj string

datatype error = TypeError | KeyError

text \<open>Truth value testing, as \<^verbatim>\<open>if x\<close>, \<^verbatim>\<open>x or y\<close> do it.\<close>

fun truthy :: "pyval \<Rightarrow> bool" where
  "truthy PNone = False"
| "truthy (PBool b) = b"
| "truthy (PInt i) = (i \<noteq> 0)"
| "truthy (PStr s) = (s \<noteq> [])"
| "truthy (PList xs) = (xs \<noteq> [])"
| "truthy (PDict kvs) = (kvs \<noteq> [])"
| "truthy (PObj t) = True"

definition py_or :: "pyval \<Rightarrow> pyval \<Rightarrow> pyval" where
  "py_or x y = (if truthy x then x else y)"

text \<open>
  \<^verbatim>\<open>getattr(record, name, default)\<close>, applied to the attribute: \<open>Some v\<close> when the
  record has it with the value \<open>v\<close>, and \<open>None\<close> when the record does not have it.
\<close>

definition getattr :: "pyval option \<Rightarrow> pyval \<Rightarrow> pyval" where
  "getattr a d = (case a of Some v \<Rightarrow> v | None \<Rightarrow> d)"

subsection \<open>Numbers as text\<close>

definition digit_char :: "nat \<Rightarrow> char" where
  "digit_char n = ''0123456789abcdef'' ! n"

function dec_nat :: "nat \<Rightarrow> string" where
  "dec_nat n = (if n < 10 then [digit_char n] else dec_nat (n div 10) @ [digit_char (n mod 10)])"
  by pat_completeness auto
termination
  by (relation "measure id") auto

declare dec_nat.simps [simp del]

definition int_repr :: "int \<Rightarrow> string" where
  "int_repr i = (if i < 0 then CHR ''-'' # dec_nat (nat (- i)) else dec_nat (nat i))"

definition hex2 :: "nat \<Rightarrow> string" where
  "hex2 n = [digit_char (n div 16), digit_char (n mod 16)]"

fun join :: "string \<Rightarrow> string list \<Rightarrow> string" where
  "join sep [] = []"
| "join sep [x] = x"
| "join sep (x # y # ys) = x @ sep @ join sep (y # ys)"

subsection \<open>\<^verbatim>\<open>json.dumps\<close> with its default options\<close>

text \<open>
  \<^verbatim>\<open>ensure_ascii=True\<close>: every character outside the range from space to tilde is
  escaped, with the short escapes where JSON has one and \<^verbatim>\<open>\u00xx\<close> otherwise; the
  separators are \<^verbatim>\<open>", "\<close> and \<^verbatim>\<open>": "\<close>.
\<close>

definition json_escape_char :: "char \<Rightarrow> string" where
  "json_escape_char c =
    (if c = CHR 0x22 then [CHR 0x5C, CHR 0x22]
     else if c = CHR 0x5C then [CHR 0x5C, CHR 0x5C]
     else if c = CHR 0x08 then [CHR 0x5C, CHR ''b'']
     else if c = CHR 0x0C then [CHR 0x5C, CHR ''f'']
     else if c = CHR 0x0A then [CHR 0x5C, CHR ''n'']
     else if c = CHR 0x0D then [CHR 0x5C, CHR ''r'']
     else if c = CHR 0x09 then [CHR 0x5C, CHR ''t'']
     else if of_char c < (0x20 :: nat) \<or> (0x7E :: nat) < of_char c
       then [CHR 0x5C, CHR ''u'', CHR ''0'', CHR ''0''] @ hex2 (of_char c)
     else [c])"

definition json_string :: "string \<Rightarrow> string" where
  "json_string s = [CHR 0x22] @ concat (map json_escape_char s) @ [CHR 0x22]"

fun serializable :: "pyval \<Rightarrow> bool"
  and serializable_list :: "pyval list \<Rightarrow> bool"
  and serializable_items :: "(string \<times> pyval) list \<Rightarrow> bool" where
  "serializable PNone = True"
| "serializable (PBool b) = True"
| "serializable (PInt i) = True"
| "serializable (PStr s) = True"
| "serializable (PList xs) = serializable_list xs"
| "serializable (PDict kvs) = serializable_items kvs"
| "serializable (PObj t) = False"
| "serializable_list [] = True"
| "serializable_list (x # xs) = (serializable x \<and> serializable_list xs)"
| "serializable_items [] = True"
| "serializable_items ((k, v) # kvs) = (serializable v \<and> serializable_items kvs)"

fun json_text :: "pyval \<Rightarrow> string"
  and json_text_list :: "pyval list \<Rightarrow> string list"
  and json_text_items :: "(string \<times> pyval) list \<Rightarrow> string list" where
  "json_text PNone = ''null''"
| "json_text (PBool b) = (if b then ''true'' else ''false'')"
| "json_text (PInt i) = int_repr i"
| "json_text (PStr s) = json_string s"
| "json_text (PList xs) = ''['' @ join '', '' (json_text_list xs) @ '']''"
| "json_text (PDict kvs) = ''{'' @ join '', '' (json_text_items kvs) @ ''}''"
| "json_text (PObj t) = []"
| "json_text_list [] = []"
| "json_text_list (x # xs) = json_text x # json_text_list xs"
| "json_text_items [] = []"
| "json_text_items ((k, v) # kvs) = (json_string k @ '': '' @ json_text v) # json_text_items kvs"

text \<open>\<^verbatim>\<open>json.dumps(obj)\<close>: the text, or \<open>TypeError\<close> when some value inside is no JSON value.\<close>

definition json_dumps :: "pyval \<Rightarrow> error + string" where
  "json_dumps v = (if serializable v then Inr (json_text v) else Inl TypeError)"

subsection \<open>\<^verbatim>\<open>repr\<close> and \<^verbatim>\<open>str\<close>\<close>

text \<open>
  \<^verbatim>\<open>repr\<close> of a string picks double quotes when the string has a single quote and no
  double quote, and single quotes otherwise; it escapes the backslash, the chosen quote, tab,
  newline and carriage return, and writes every other character that is not printable as
  \<^verbatim>\<open>\xNN\<close>. Below 256 the characters that are not printable are the control
  characters (0 to 31 and 127 to 159), the no-break space (160) and the soft hyphen (173).
\<close>

definition repr_quote :: "string \<Rightarrow> char" where
  "repr_quote s = (if CHR 0x27 \<in> set s \<and> CHR 0x22 \<notin> set s then CHR 0x22 else CHR 0x27)"

definition repr_char :: "char \<Rightarrow> char \<Rightarrow> string" where
  "repr_char q c =
    (if c = q \<or> c = CHR 0x5C then [CHR 0x5C, c]
     else if c = CHR 0x09 then [CHR 0x5C, CHR ''t'']
     else if c = CHR 0x0A then [CHR 0x5C, CHR ''n'']
     else if c = CHR 0x0D then [CHR 0x5C, CHR ''r'']
     else if of_char c < (0x20 :: nat) \<or> ((0x7F :: nat) \<le> of_char c \<and> of_char c \<le> (0xA0 :: nat))
             \<or> of_char c = (0xAD :: nat)
       then [CHR 0x5C, CHR ''x''] @ hex2 (of_char c)
     else [c])"

definition str_repr :: "string \<Rightarrow> string" where
  "str_repr s = (let q = repr_quote s in [q] @ concat (map (repr_char q) s) @ [q])"

fun py_repr :: "pyval \<Rightarrow> string"
  and py_repr_list :: "pyval list \<Rightarrow> string list"
  and py_repr_items :: "(string \<times> pyval) list \<Rightarrow> string list" where
  "py_repr PNone = ''None''"
| "py_repr (PBool b) = (if b then ''True'' else ''False'')"
| "py_repr (PInt i) = int_repr i"
| "py_repr (PStr s) = str_repr s"
| "py_repr (PList xs) = ''['' @ join '', '' (py_repr_list xs) @ '']''"
| "py_repr (PDict kvs) = ''{'' @ join '', '' (py_repr_items kvs) @ ''}''"
| "py_repr (PObj t) = t"
| "py_repr_list [] = []"
| "py_repr_list (x # xs) = py_repr x # py_repr_list xs"
| "py_repr_items [] = []"
| "py_repr_items ((k, v) # kvs) = (str_repr k @ '': '' @ py_repr v) # py_repr_items kvs"

definition py_str :: "pyval \<Rightarrow> string" where
  "py_str v = (case v of PStr s \<Rightarrow> s | _ \<Rightarrow> py_repr v)"

text \<open>\<^verbatim>\<open>s.replace('"', '\\"')\<close>\<close>

definition replace_quotes :: "string \<Rightarrow> string" where
  "replace_quotes s = concat (map (\<lambda>c. if c = CHR 0x22 then [CHR 0x5C, CHR 0x22] else [c]) s)"

subsection \<open>Dictionaries\<close>

text \<open>
  Storing under a key keeps the place of a key that is there and appends a new one, as a
  Python dictionary does. \<open>dict_update d e\<close> is \<^verbatim>\<open>{**d, **e}\<close>.
\<close>

fun dict_set :: "(string \<times> pyval) list \<Rightarrow> string \<Rightarrow> pyval \<Rightarrow> (string \<times> pyval) list" where
  "dict_set [] k v = [(k, v)]"
| "dict_set ((k', v') # kvs) k v = (if k' = k then (k, v) # kvs else (k', v') # dict_set kvs k v)"

fun dict_update :: "(string \<times> pyval) list \<Rightarrow> (string \<times> pyval) list \<Rightarrow> (string \<times> pyval) list" where
  "dict_update d [] = d"
| "dict_update d ((k, v) # kvs) = dict_update (dict_set d k v) kvs"

text \<open>
  \<^verbatim>\<open>{**d, **x}\<close> for any value \<open>x\<close>: only a mapping can be unpacked, anything else is a
  \<open>TypeError\<close>.
\<close>

definition dict_unpack2 :: "(string \<times> pyval) list \<Rightarrow> pyval \<Rightarrow> error + (string \<times> pyval) list" where
  "dict_unpack2 d x = (case x of PDict e \<Rightarrow> Inr (dict_update d e) | _ \<Rightarrow> Inl TypeError)"

section \<open>The log record\<close>

text \<open>
  The attributes of \<^verbatim>\<open>logging.LogRecord\<close> that the module reads or writes.
  \<^item> \<open>args\<close> is \<open>None\<close> when the record has no arguments, and \<open>Some t\<close> when it has
    some and \<^verbatim>\<open>str(msg) % args\<close> is the text \<open>t\<close>.
  \<^item> \<open>pathname\<close>, \<open>lineno\<close> and \<open>funcName\<close> are \<open>PNone\<close> when the attribute is
    \<open>None\<close> or missing: \<^verbatim>\<open>getattr(record, name, None)\<close> gives \<open>None\<close> for both.
  \<^item> \<open>exc_info\<close> is \<open>Some t\<close> when exception information is set and
    \<^verbatim>\<open>formatException\<close> renders it as \<open>t\<close>.
  \<^item> The six attributes a caller can pass as extras are \<open>None\<close> when the record does
    not have the attribute (\<^verbatim>\<open>hasattr\<close> is false) and \<open>Some v\<close> when it has the value
    \<open>v\<close>, which may be \<open>PNone\<close>.
  \<^item> \<open>u_x\<close> is the attribute \<^verbatim>\<open>_x\<close> that the filter and the handler set; \<open>None\<close>
    when it is not set yet.
\<close>

record log_record =
  msg :: pyval
  args :: "string option"
  levelname :: string
  pathname :: pyval
  lineno :: pyval
  funcName :: pyval
  exc_info :: "string option"
  exc_text :: "string option"
  stack_info :: "string option"
  message :: "string option"
  labels :: "pyval option"
  trace :: "pyval option"
  span_id :: "pyval option"
  http_request :: "pyval option"
  source_location :: "pyval option"
  resource :: "pyval option"
  u_resource :: "pyval option"
  u_trace :: "pyval option"
  u_span_id :: "pyval option"
  u_http_request :: "pyval option"
  u_source_location :: "pyval option"
  u_labels :: "pyval option"
  u_trace_str :: "pyval option"
  u_span_id_str :: "pyval option"
  u_http_request_str :: "string option"
  u_source_location_str :: "string option"
  u_labels_str :: "string option"
  u_msg_str :: "string option"
  u_formatted_msg :: "string option"

section \<open>CloudLoggingFilter\<close>

record cloud_logging_filter =
  project :: "string option"
  default_labels :: "(string \<times> pyval) list"

definition CloudLoggingFilter ::
  "string option \<Rightarrow> (string \<times> pyval) list option \<Rightarrow> cloud_logging_filter" where
  "CloudLoggingFilter proj dflt =
    \<lparr>project = proj,
     default_labels = (case dflt of Some d \<Rightarrow> if d \<noteq> [] then d else [] | None \<Rightarrow> [])\<rparr>"

definition supported_http_fields :: "string list" where
  "supported_http_fields = [''requestMethod'', ''requestUrl'', ''userAgent'', ''protocol'']"

definition name_map :: "(string \<times> (log_record \<Rightarrow> pyval)) list" where
  "name_map = [(''line'', lineno), (''file'', pathname), (''function'', funcName)]"

fun infer_loop :: "(string \<times> (log_record \<Rightarrow> pyval)) list \<Rightarrow> log_record \<Rightarrow>
    (string \<times> pyval) list \<Rightarrow> (string \<times> pyval) list" where
  "infer_loop [] record output = output"
| "infer_loop ((gcp_name, std_lib_name) # rest) record output =
    (let value = std_lib_name record
     in infer_loop rest record (if value \<noteq> PNone then dict_set output gcp_name value else output))"

definition infer_source_location :: "log_record \<Rightarrow> pyval" where
  "infer_source_location record =
    (case source_location record of
       Some v \<Rightarrow> v
     | None \<Rightarrow>
        (let output = infer_loop name_map record []
         in if output \<noteq> [] then PDict output else PNone))"

text \<open>
  The body of \<^verbatim>\<open>filter\<close>, for any values of \<^verbatim>\<open>inferred_http\<close>,
  \<^verbatim>\<open>inferred_trace\<close> and \<^verbatim>\<open>inferred_span\<close>. The result is the error raised, or the
  value returned together with the record as the call leaves it. A call that raises leaves the
  record with the attributes it had set by then; the result is the error alone.
\<close>

definition filter_body ::
  "cloud_logging_filter \<Rightarrow> (string \<times> pyval) list option \<Rightarrow> string option \<Rightarrow> string option \<Rightarrow>
    log_record \<Rightarrow> error + (bool \<times> log_record)" where
  "filter_body self inferred_http0 inferred_trace0 inferred_span record =
    (let user_labels = getattr (labels record) (PDict []);
         inferred_http =
           (case inferred_http0 of
              Some d \<Rightarrow> Some (PDict (filter (\<lambda>(k, v). k \<in> set supported_http_fields \<and> v \<noteq> PNone) d))
            | None \<Rightarrow> None);
         inferred_trace =
           (case (inferred_trace0, project self) of
              (Some t, Some p) \<Rightarrow> Some (PStr (''projects/'' @ p @ ''/traces/'' @ t))
            | (Some t, None) \<Rightarrow> Some (PStr t)
            | (None, _) \<Rightarrow> None);
         resource' = getattr (resource record) PNone;
         trace' = py_or (getattr (trace record) (getattr inferred_trace PNone)) PNone;
         span_id' = py_or (getattr (span_id record) (getattr (map_option PStr inferred_span) PNone)) PNone;
         http_request' = getattr (http_request record) (getattr inferred_http PNone);
         source_location' = infer_source_location record
     in case dict_unpack2 (default_labels self) user_labels of
          Inl e \<Rightarrow> Inl e
        | Inr merged \<Rightarrow>
           (let labels' = py_or (PDict merged) PNone;
                trace_str = py_or trace' (PStr []);
                span_id_str = py_or span_id' (PStr [])
            in case json_dumps (py_or http_request' (PDict [])) of
                 Inl e \<Rightarrow> Inl e
               | Inr http_request_str \<Rightarrow>
                  (case json_dumps (py_or source_location' (PDict [])) of
                     Inl e \<Rightarrow> Inl e
                   | Inr source_location_str \<Rightarrow>
                      (case json_dumps (py_or labels' (PDict [])) of
                         Inl e \<Rightarrow> Inl e
                       | Inr labels_str \<Rightarrow>
                          Inr (True, record
                            \<lparr>u_resource := Some resource',
                             u_trace := Some trace',
                             u_span_id := Some span_id',
                             u_http_request := Some http_request',
                             u_source_location := Some source_location',
                             u_labels := Some labels',
                             u_trace_str := Some trace_str,
                             u_span_id_str := Some span_id_str,
                             u_http_request_str := Some http_request_str,
                             u_source_location_str := Some source_location_str,
                             u_labels_str := Some labels_str,
                             u_msg_str := Some (if truthy (msg record)
                                                then replace_quotes (py_str (msg record)) else [])\<rparr>)))))"

text \<open>\<^verbatim>\<open>filter\<close> itself: the three inferred values are \<open>None\<close>.\<close>

definition filter' :: "cloud_logging_filter \<Rightarrow> log_record \<Rightarrow> error + (bool \<times> log_record)" where
  "filter' self record = filter_body self None None None record"

section \<open>logging.Formatter\<close>

text \<open>\<^verbatim>\<open>LogRecord.getMessage\<close>: \<^verbatim>\<open>str(self.msg)\<close>, merged with the arguments if there are any.\<close>

definition getMessage :: "log_record \<Rightarrow> string" where
  "getMessage record = (case args record of Some t \<Rightarrow> t | None \<Rightarrow> py_str (msg record))"

definition str_truthy :: "string option \<Rightarrow> bool" where
  "str_truthy a = (case a of Some t \<Rightarrow> t \<noteq> [] | None \<Rightarrow> False)"

definition append_block :: "string \<Rightarrow> string \<Rightarrow> string" where
  "append_block s t = (if s = [] \<or> last s \<noteq> CHR 0x0A then s @ [CHR 0x0A] else s) @ t"

text \<open>
  \<^verbatim>\<open>Formatter.format\<close>, for a formatter whose \<^verbatim>\<open>formatMessage\<close> is the given function:
  set \<^verbatim>\<open>record.message\<close>, render the format string, then append the exception text and the
  stack information when the record has them.
\<close>

definition Formatter_format ::
  "(log_record \<Rightarrow> error + string) \<Rightarrow> log_record \<Rightarrow> error + (string \<times> log_record)" where
  "Formatter_format formatMessage record0 =
    (let record1 = record0\<lparr>message := Some (getMessage record0)\<rparr>
     in case formatMessage record1 of
          Inl e \<Rightarrow> Inl e
        | Inr s \<Rightarrow>
           (let record2 = (if exc_info record1 \<noteq> None \<and> \<not> str_truthy (exc_text record1)
                           then record1\<lparr>exc_text := exc_info record1\<rparr> else record1);
                s1 = (if str_truthy (exc_text record2) then append_block s (the (exc_text record2)) else s);
                s2 = (if str_truthy (stack_info record2) then append_block s1 (the (stack_info record2)) else s1)
            in Inr (s2, record2)))"

text \<open>The default formatter of the logging module: the format string \<^verbatim>\<open>%(message)s\<close>.\<close>

definition default_formatMessage :: "log_record \<Rightarrow> error + string" where
  "default_formatMessage record = (case message record of Some m \<Rightarrow> Inr m | None \<Rightarrow> Inl KeyError)"

text \<open>
  The format string \<^verbatim>\<open>GCP_FORMAT\<close>, as a function of the texts that take the place of
  its seven \<^verbatim>\<open>%(name)s\<close> fields, in the order in which they occur.
\<close>

definition GCP_FORMAT ::
  "string \<Rightarrow> string \<Rightarrow> string \<Rightarrow> string \<Rightarrow> string \<Rightarrow> string \<Rightarrow> string \<Rightarrow> string" where
  \<open>GCP_FORMAT formatted_msg levelname0 labels_str trace_str span_id_str source_location_str
      http_request_str =
      ''{"message": '' @ formatted_msg @ '', ''
    @ ''"severity": "'' @ levelname0 @ ''", ''
    @ ''"logging.googleapis.com/labels": '' @ labels_str @ '', ''
    @ ''"logging.googleapis.com/trace": "'' @ trace_str @ ''", ''
    @ ''"logging.googleapis.com/spanId": "'' @ span_id_str @ ''", ''
    @ ''"logging.googleapis.com/sourceLocation": '' @ source_location_str @ '', ''
    @ ''"httpRequest": '' @ http_request_str @ '' }''\<close>

text \<open>
  \<^verbatim>\<open>GCP_FORMAT % record.__dict__\<close>, the \<^verbatim>\<open>formatMessage\<close> of the formatter that the
  handler builds: each field is \<^verbatim>\<open>str\<close> of the attribute, and an attribute that is not
  set is an error (a \<^verbatim>\<open>KeyError\<close>, which later versions of the logging module raise again
  as a \<^verbatim>\<open>ValueError\<close>).
\<close>

definition gcp_formatMessage :: "log_record \<Rightarrow> error + string" where
  "gcp_formatMessage record =
    (case (u_formatted_msg record, u_labels_str record, u_trace_str record, u_span_id_str record,
           u_source_location_str record, u_http_request_str record) of
       (Some formatted_msg, Some labels_str, Some trace_str, Some span_id_str,
        Some source_location_str, Some http_request_str) \<Rightarrow>
         Inr (GCP_FORMAT formatted_msg (levelname record) labels_str (py_str trace_str)
                (py_str span_id_str) source_location_str http_request_str)
     | _ \<Rightarrow> Inl KeyError)"

section \<open>StructuredLogHandler\<close>

record structured_log_handler =
  project_id :: "string option"
  log_filter :: cloud_logging_filter

definition StructuredLogHandler ::
  "(string \<times> pyval) list option \<Rightarrow> string option \<Rightarrow> structured_log_handler" where
  "StructuredLogHandler labels0 project_id0 =
    \<lparr>project_id = project_id0, log_filter = CloudLoggingFilter project_id0 labels0\<rparr>"

text \<open>
  \<^verbatim>\<open>format\<close>: the text returned and the record as the call leaves it. The handler has no
  formatter of its own, so \<^verbatim>\<open>super().format\<close> is the default formatter.
\<close>

definition format :: "structured_log_handler \<Rightarrow> log_record \<Rightarrow> error + (string \<times> log_record)" where
  "format self record =
    (case (if truthy (msg record)
           then (case Formatter_format default_formatMessage record of
                   Inl e \<Rightarrow> Inl e
                 | Inr (s, record1) \<Rightarrow> Inr (PStr s, record1))
           else Inr (PNone, record)) of
       Inl e \<Rightarrow> Inl e
     | Inr (super_payload, record1) \<Rightarrow>
        (case json_dumps (py_or super_payload (PStr [])) of
           Inl e \<Rightarrow> Inl e
         | Inr formatted_msg \<Rightarrow>
            Formatter_format gcp_formatMessage
              (record1\<lparr>u_formatted_msg := Some formatted_msg, exc_info := None, exc_text := None\<rparr>)))"

text \<open>
  \<^verbatim>\<open>Handler.handle\<close>, which the handler inherits: run the filter; if it keeps the record,
  \<^verbatim>\<open>emit\<close> formats it and writes the text and a newline to the stream. The result is the
  text written, if any. An error of the filter reaches the caller; \<^verbatim>\<open>emit\<close> catches an
  error of \<^verbatim>\<open>format\<close> and writes nothing.
\<close>

definition handle :: "structured_log_handler \<Rightarrow> log_record \<Rightarrow> error + string option" where
  "handle self record =
    (case filter' (log_filter self) record of
       Inl e \<Rightarrow> Inl e
     | Inr (rv, record1) \<Rightarrow>
        if rv then (case format self record1 of
                      Inl e \<Rightarrow> Inr None
                    | Inr (s, record2) \<Rightarrow> Inr (Some (s @ [CHR 0x0A])))
        else Inr None)"

section \<open>The text that the handler writes\<close>

text \<open>
  Two texts that the statements about \<^verbatim>\<open>format\<close> name. \<open>payload\<close> is the value of
  \<^verbatim>\<open>super_payload or ""\<close> in \<^verbatim>\<open>format\<close>: empty for a falsy message, and otherwise
  the message with the exception text and the stack information that the default formatter
  appends. \<open>stack_suffix\<close> is what the second formatter appends to the rendered template: the
  stack information again, the exception attributes being cleared by then.
\<close>

definition payload :: "log_record \<Rightarrow> string" where
  "payload r =
    (if truthy (msg r)
     then (let e = (if exc_info r \<noteq> None \<and> \<not> str_truthy (exc_text r) then exc_info r else exc_text r);
               s1 = (if str_truthy e then append_block (getMessage r) (the e) else getMessage r)
           in if str_truthy (stack_info r) then append_block s1 (the (stack_info r)) else s1)
     else [])"

definition stack_suffix :: "log_record \<Rightarrow> string" where
  "stack_suffix r = (if str_truthy (stack_info r) then CHR 0x0A # the (stack_info r) else [])"

section \<open>JSON texts\<close>

text \<open>
  The reading side, to say that a written line is JSON: the grammar of RFC 8259. A number is
  kept as its literal and a string as the text between its quotes, escapes not decoded. An
  object keeps its members in the order of the text, duplicates included.
\<close>

datatype json =
    JNull
  | JBool bool
  | JNumber string
  | JString string
  | JArray "json list"
  | JObject "(string \<times> json) list"

text \<open>
  The result of reading: the value and the text that is left, or the text is not JSON, or the
  recursion budget ran out before that was decided.
\<close>

datatype 'a parse = Parsed 'a string | Malformed | NoFuel

definition is_ws :: "char \<Rightarrow> bool" where
  "is_ws c = (c = CHR 0x20 \<or> c = CHR 0x09 \<or> c = CHR 0x0A \<or> c = CHR 0x0D)"

definition is_digit :: "char \<Rightarrow> bool" where
  "is_digit c = (c \<in> set ''0123456789'')"

definition is_hex :: "char \<Rightarrow> bool" where
  "is_hex c = (c \<in> set ''0123456789abcdefABCDEF'')"

definition skip_ws :: "string \<Rightarrow> string" where
  "skip_ws = dropWhile is_ws"

text \<open>
  The characters of a string after its opening quote, up to the closing quote. The state is 0
  in plain text, 1 after a backslash, and from 5 down to 2 while the four hexadecimal digits of
  a \<^verbatim>\<open>\u\<close> escape are due. A control character is not allowed in a string.
\<close>

fun json_chars :: "nat \<Rightarrow> string \<Rightarrow> string \<Rightarrow> string parse" where
  "json_chars st acc [] = Malformed"
| "json_chars st acc (c # cs) =
    (if st = 0 then
       (if c = CHR 0x22 then Parsed (rev acc) cs
        else if c = CHR 0x5C then json_chars 1 (c # acc) cs
        else if of_char c < (0x20 :: nat) then Malformed
        else json_chars 0 (c # acc) cs)
     else if st = 1 then
       (if c \<in> set [CHR 0x22, CHR 0x5C, CHR ''/'', CHR ''b'', CHR ''f'', CHR ''n'', CHR ''r'', CHR ''t'']
          then json_chars 0 (c # acc) cs
        else if c = CHR ''u'' then json_chars 5 (c # acc) cs
        else Malformed)
     else (if is_hex c then json_chars (if st = 2 then 0 else st - 1) (c # acc) cs else Malformed))"

text \<open>
  A number: an optional minus, then 0 or a digit sequence, then an optional fraction and an
  optional exponent.
\<close>

definition json_digits :: "string \<Rightarrow> (string \<times> string) option" where
  "json_digits s = (let ds = takeWhile is_digit s in if ds = [] then None else Some (ds, dropWhile is_digit s))"

definition json_number :: "string \<Rightarrow> string parse" where
  "json_number s =
    (let (sign, s1) = (case s of c # cs \<Rightarrow> if c = CHR ''-'' then ([c], cs) else ([], s) | [] \<Rightarrow> ([], s))
     in case (case s1 of
                c # cs \<Rightarrow> if c = CHR ''0'' then Some ([c], cs) else json_digits s1
              | [] \<Rightarrow> None) of
          None \<Rightarrow> Malformed
        | Some (ip, s2) \<Rightarrow>
           (case (case s2 of
                    c # cs \<Rightarrow> if c = CHR ''.'' then map_option (\<lambda>(ds, r). (c # ds, r)) (json_digits cs)
                              else Some ([], s2)
                  | [] \<Rightarrow> Some ([], s2)) of
              None \<Rightarrow> Malformed
            | Some (fp, s3) \<Rightarrow>
               (case (case s3 of
                        c # cs \<Rightarrow>
                          if c = CHR ''e'' \<or> c = CHR ''E'' then
                            (case cs of
                               d # ds \<Rightarrow> if d = CHR ''+'' \<or> d = CHR ''-''
                                         then map_option (\<lambda>(es, r). (c # d # es, r)) (json_digits ds)
                                         else map_option (\<lambda>(es, r). (c # es, r)) (json_digits cs)
                             | [] \<Rightarrow> None)
                          else Some ([], s3)
                      | [] \<Rightarrow> Some ([], s3)) of
                  None \<Rightarrow> Malformed
                | Some (ep, s4) \<Rightarrow> Parsed (sign @ ip @ fp @ ep) s4)))"

definition json_literal :: "string \<Rightarrow> json \<Rightarrow> string \<Rightarrow> json parse" where
  "json_literal w v s = (if take (length w) s = w then Parsed v (drop (length w) s) else Malformed)"

text \<open>
  A value, the elements of an array after its opening bracket, and the members of an object
  after its opening brace. The first argument bounds the number of nested calls.
\<close>

fun json_value :: "nat \<Rightarrow> string \<Rightarrow> json parse"
  and json_elements :: "nat \<Rightarrow> string \<Rightarrow> json list parse"
  and json_members :: "nat \<Rightarrow> string \<Rightarrow> (string \<times> json) list parse" where
  "json_value 0 s = NoFuel"
| "json_value (Suc n) s =
    (case skip_ws s of
       [] \<Rightarrow> Malformed
     | c # cs \<Rightarrow>
        if c = CHR ''{'' then
          (case skip_ws cs of
             [] \<Rightarrow> Malformed
           | d # ds \<Rightarrow> if d = CHR ''}'' then Parsed (JObject []) ds
                       else (case json_members n cs of
                               Parsed ms r \<Rightarrow> Parsed (JObject ms) r
                             | Malformed \<Rightarrow> Malformed | NoFuel \<Rightarrow> NoFuel))
        else if c = CHR ''['' then
          (case skip_ws cs of
             [] \<Rightarrow> Malformed
           | d # ds \<Rightarrow> if d = CHR '']'' then Parsed (JArray []) ds
                       else (case json_elements n cs of
                               Parsed vs r \<Rightarrow> Parsed (JArray vs) r
                             | Malformed \<Rightarrow> Malformed | NoFuel \<Rightarrow> NoFuel))
        else if c = CHR 0x22 then
          (case json_chars 0 [] cs of
             Parsed t r \<Rightarrow> Parsed (JString t) r
           | Malformed \<Rightarrow> Malformed | NoFuel \<Rightarrow> NoFuel)
        else if c = CHR ''t'' then json_literal ''true'' (JBool True) (c # cs)
        else if c = CHR ''f'' then json_literal ''false'' (JBool False) (c # cs)
        else if c = CHR ''n'' then json_literal ''null'' JNull (c # cs)
        else (case json_number (c # cs) of
                Parsed t r \<Rightarrow> Parsed (JNumber t) r
              | Malformed \<Rightarrow> Malformed | NoFuel \<Rightarrow> NoFuel))"
| "json_elements 0 s = NoFuel"
| "json_elements (Suc n) s =
    (case json_value n s of
       Parsed v r \<Rightarrow>
        (case skip_ws r of
           [] \<Rightarrow> Malformed
         | c # cs \<Rightarrow>
            if c = CHR '']'' then Parsed [v] cs
            else if c = CHR '','' then
              (case json_elements n cs of
                 Parsed vs r' \<Rightarrow> Parsed (v # vs) r'
               | Malformed \<Rightarrow> Malformed | NoFuel \<Rightarrow> NoFuel)
            else Malformed)
     | Malformed \<Rightarrow> Malformed | NoFuel \<Rightarrow> NoFuel)"
| "json_members 0 s = NoFuel"
| "json_members (Suc n) s =
    (case skip_ws s of
       [] \<Rightarrow> Malformed
     | q # s1 \<Rightarrow>
        if q \<noteq> CHR 0x22 then Malformed
        else (case json_chars 0 [] s1 of
                Parsed key s2 \<Rightarrow>
                 (case skip_ws s2 of
                    [] \<Rightarrow> Malformed
                  | c # s3 \<Rightarrow>
                     if c \<noteq> CHR '':'' then Malformed
                     else (case json_value n s3 of
                             Parsed v r \<Rightarrow>
                              (case skip_ws r of
                                 [] \<Rightarrow> Malformed
                               | d # ds \<Rightarrow>
                                  if d = CHR ''}'' then Parsed [(key, v)] ds
                                  else if d = CHR '','' then
                                    (case json_members n ds of
                                       Parsed ms r' \<Rightarrow> Parsed ((key, v) # ms) r'
                                     | Malformed \<Rightarrow> Malformed | NoFuel \<Rightarrow> NoFuel)
                                  else Malformed)
                           | Malformed \<Rightarrow> Malformed | NoFuel \<Rightarrow> NoFuel))
              | Malformed \<Rightarrow> Malformed | NoFuel \<Rightarrow> NoFuel))"

text \<open>
  A whole text is JSON when it is one value with only white space around it. Two nested calls
  consume at least one character between them, so twice the length of the text is budget enough.
\<close>

definition json_loads :: "string \<Rightarrow> json parse" where
  "json_loads s =
    (case json_value (2 * length s + 2) s of
       Parsed v r \<Rightarrow> if skip_ws r = [] then Parsed v [] else Malformed
     | Malformed \<Rightarrow> Malformed
     | NoFuel \<Rightarrow> NoFuel)"

text \<open>The seven keys of the output schema, and the keys of a text that was read as an object.\<close>

definition documented_keys :: "string list" where
  \<open>documented_keys = [''message'', ''severity'', ''logging.googleapis.com/labels'',
     ''logging.googleapis.com/trace'', ''logging.googleapis.com/spanId'',
     ''logging.googleapis.com/sourceLocation'', ''httpRequest'']\<close>

definition object_keys :: "json parse \<Rightarrow> string list option" where
  "object_keys p = (case p of Parsed (JObject ms) r \<Rightarrow> Some (map fst ms) | _ \<Rightarrow> None)"

section \<open>Example records\<close>

text \<open>
  A record as \<^verbatim>\<open>logger.info("hi")\<close> makes it at line 12 of \<^verbatim>\<open>/app/main.py\<close>, in the
  function \<^verbatim>\<open>run\<close>, with no extras.
\<close>

definition example_record :: log_record where
  "example_record =
    \<lparr>msg = PStr ''hi'', args = None, levelname = ''INFO'',
     pathname = PStr ''/app/main.py'', lineno = PInt 12, funcName = PStr ''run'',
     exc_info = None, exc_text = None, stack_info = None, message = None,
     labels = None, trace = None, span_id = None, http_request = None,
     source_location = None, resource = None,
     u_resource = None, u_trace = None, u_span_id = None, u_http_request = None,
     u_source_location = None, u_labels = None, u_trace_str = None, u_span_id_str = None,
     u_http_request_str = None, u_source_location_str = None, u_labels_str = None,
     u_msg_str = None, u_formatted_msg = None\<rparr>"

section \<open>Properties of the filter\<close>

lemma json_dumps_Inr: "json_dumps v = Inr s \<longleftrightarrow> serializable v \<and> s = json_text v"
  by (auto simp: json_dumps_def)

lemma dict_unpack2_Inr: "dict_unpack2 d x = Inr m \<longleftrightarrow> (\<exists>e. x = PDict e \<and> m = dict_update d e)"
  by (auto simp: dict_unpack2_def split: pyval.splits)

lemma py_or_labels:
  "serializable (py_or (py_or (PDict m) PNone) (PDict [])) = serializable_items m"
  "json_text (py_or (py_or (PDict m) PNone) (PDict [])) = json_text (PDict m)"
  by (auto simp: py_or_def)

lemma infer_source_location_unfold:
  "infer_source_location r =
    (case source_location r of
       Some v \<Rightarrow> v
     | None \<Rightarrow>
        (let out = (if lineno r \<noteq> PNone then [(''line'', lineno r)] else [])
                 @ (if pathname r \<noteq> PNone then [(''file'', pathname r)] else [])
                 @ (if funcName r \<noteq> PNone then [(''function'', funcName r)] else [])
         in if out = [] then PNone else PDict out))"
  by (simp add: infer_source_location_def name_map_def Let_def split: option.splits)

lemma getattr_simps [simp]: "getattr None d = d" "getattr (Some v) d = v"
  by (simp_all add: getattr_def)

lemma filter_body_Inr:
  "filter_body self ih it isp r = Inr (k, r') \<longleftrightarrow>
    (\<exists>merged hs ss ls.
       dict_unpack2 (default_labels self) (getattr (labels r) (PDict [])) = Inr merged
     \<and> json_dumps (py_or (getattr (http_request r) (getattr (case ih of
              Some d \<Rightarrow> Some (PDict (filter (\<lambda>(k, v). k \<in> set supported_http_fields \<and> v \<noteq> PNone) d))
            | None \<Rightarrow> None) PNone)) (PDict [])) = Inr hs
     \<and> json_dumps (py_or (infer_source_location r) (PDict [])) = Inr ss
     \<and> json_dumps (py_or (py_or (PDict merged) PNone) (PDict [])) = Inr ls
     \<and> k
     \<and> r' = r
        \<lparr>u_resource := Some (getattr (resource r) PNone),
         u_trace := Some (py_or (getattr (trace r) (getattr (case (it, project self) of
              (Some t, Some p) \<Rightarrow> Some (PStr (''projects/'' @ p @ ''/traces/'' @ t))
            | (Some t, None) \<Rightarrow> Some (PStr t)
            | (None, _) \<Rightarrow> None) PNone)) PNone),
         u_span_id := Some (py_or (getattr (span_id r) (getattr (map_option PStr isp) PNone)) PNone),
         u_http_request := Some (getattr (http_request r) (getattr (case ih of
              Some d \<Rightarrow> Some (PDict (filter (\<lambda>(k, v). k \<in> set supported_http_fields \<and> v \<noteq> PNone) d))
            | None \<Rightarrow> None) PNone)),
         u_source_location := Some (infer_source_location r),
         u_labels := Some (py_or (PDict merged) PNone),
         u_trace_str := Some (py_or (py_or (getattr (trace r) (getattr (case (it, project self) of
              (Some t, Some p) \<Rightarrow> Some (PStr (''projects/'' @ p @ ''/traces/'' @ t))
            | (Some t, None) \<Rightarrow> Some (PStr t)
            | (None, _) \<Rightarrow> None) PNone)) PNone) (PStr [])),
         u_span_id_str := Some (py_or (py_or (getattr (span_id r) (getattr (map_option PStr isp) PNone)) PNone) (PStr [])),
         u_http_request_str := Some hs,
         u_source_location_str := Some ss,
         u_labels_str := Some ls,
         u_msg_str := Some (if truthy (msg r) then replace_quotes (py_str (msg r)) else [])\<rparr>)"
  unfolding filter_body_def Let_def
  by (auto split: sum.splits)

lemma filter'_Inr:
  "filter' self r = Inr (k, r') \<longleftrightarrow>
    (\<exists>e. getattr (labels r) (PDict []) = PDict e
     \<and> serializable (py_or (getattr (http_request r) PNone) (PDict []))
     \<and> serializable (py_or (infer_source_location r) (PDict []))
     \<and> serializable_items (dict_update (default_labels self) e)
     \<and> k
     \<and> r' = r
        \<lparr>u_resource := Some (getattr (resource r) PNone),
         u_trace := Some (py_or (getattr (trace r) PNone) PNone),
         u_span_id := Some (py_or (getattr (span_id r) PNone) PNone),
         u_http_request := Some (getattr (http_request r) PNone),
         u_source_location := Some (infer_source_location r),
         u_labels := Some (py_or (PDict (dict_update (default_labels self) e)) PNone),
         u_trace_str := Some (py_or (py_or (getattr (trace r) PNone) PNone) (PStr [])),
         u_span_id_str := Some (py_or (py_or (getattr (span_id r) PNone) PNone) (PStr [])),
         u_http_request_str := Some (json_text (py_or (getattr (http_request r) PNone) (PDict []))),
         u_source_location_str := Some (json_text (py_or (infer_source_location r) (PDict []))),
         u_labels_str := Some (json_text (PDict (dict_update (default_labels self) e))),
         u_msg_str := Some (if truthy (msg r) then replace_quotes (py_str (msg r)) else [])\<rparr>)"
  unfolding filter'_def filter_body_Inr
  by (simp add: json_dumps_Inr dict_unpack2_Inr py_or_labels) blast


lemma infer_source_location_cong:
  "source_location r' = source_location r \<Longrightarrow> lineno r' = lineno r \<Longrightarrow> pathname r' = pathname r
    \<Longrightarrow> funcName r' = funcName r \<Longrightarrow> infer_source_location r' = infer_source_location r"
  by (simp add: infer_source_location_unfold cong: option.case_cong)

text \<open>
  Claim C5. Enrichment is idempotent: when the filter has returned on a record, running it again
  on the record it left returns true and leaves every attribute as it is, the derived values
  and their serialized forms included.
\<close>

theorem filter_idempotent:
  assumes "filter' self r = Inr (k, r')"
  shows "filter' self r' = Inr (True, r')"
proof -
  from assms obtain e where e: "getattr (labels r) (PDict []) = PDict e"
    and s1: "serializable (py_or (getattr (http_request r) PNone) (PDict []))"
    and s2: "serializable (py_or (infer_source_location r) (PDict []))"
    and s3: "serializable_items (dict_update (default_labels self) e)"
    and r': "r' = r
        \<lparr>u_resource := Some (getattr (resource r) PNone),
         u_trace := Some (py_or (getattr (trace r) PNone) PNone),
         u_span_id := Some (py_or (getattr (span_id r) PNone) PNone),
         u_http_request := Some (getattr (http_request r) PNone),
         u_source_location := Some (infer_source_location r),
         u_labels := Some (py_or (PDict (dict_update (default_labels self) e)) PNone),
         u_trace_str := Some (py_or (py_or (getattr (trace r) PNone) PNone) (PStr [])),
         u_span_id_str := Some (py_or (py_or (getattr (span_id r) PNone) PNone) (PStr [])),
         u_http_request_str := Some (json_text (py_or (getattr (http_request r) PNone) (PDict []))),
         u_source_location_str := Some (json_text (py_or (infer_source_location r) (PDict []))),
         u_labels_str := Some (json_text (PDict (dict_update (default_labels self) e))),
         u_msg_str := Some (if truthy (msg r) then replace_quotes (py_str (msg r)) else [])\<rparr>"
    unfolding filter'_Inr by blast
  have raw: "labels r' = labels r" "http_request r' = http_request r" "trace r' = trace r"
    "span_id r' = span_id r" "resource r' = resource r" "msg r' = msg r"
    "source_location r' = source_location r" "lineno r' = lineno r" "pathname r' = pathname r"
    "funcName r' = funcName r"
    by (simp_all add: r')
  have isl: "infer_source_location r' = infer_source_location r"
    by (rule infer_source_location_cong) (simp_all add: raw)
  show ?thesis
    unfolding filter'_Inr
    apply (rule exI [of _ e])
    apply (simp add: raw isl e s1 s2 s3)
    apply (simp add: r')
    done
qed

theorem filter_idempotent_witness:
  "filter' (CloudLoggingFilter None None) example_record =
     Inr (True, example_record
        \<lparr>u_resource := Some PNone, u_trace := Some PNone, u_span_id := Some PNone,
         u_http_request := Some PNone,
         u_source_location := Some (PDict [(''line'', PInt 12), (''file'', PStr ''/app/main.py''),
                                          (''function'', PStr ''run'')]),
         u_labels := Some PNone, u_trace_str := Some (PStr []), u_span_id_str := Some (PStr []),
         u_http_request_str := Some ''{}'',
         u_source_location_str := Some (json_text (PDict [(''line'', PInt 12),
                                          (''file'', PStr ''/app/main.py''), (''function'', PStr ''run'')])),
         u_labels_str := Some ''{}'',
         u_msg_str := Some ''hi''\<rparr>)
   \<and> filter' (CloudLoggingFilter None None) (example_record
        \<lparr>u_resource := Some PNone, u_trace := Some PNone, u_span_id := Some PNone,
         u_http_request := Some PNone,
         u_source_location := Some (PDict [(''line'', PInt 12), (''file'', PStr ''/app/main.py''),
                                          (''function'', PStr ''run'')]),
         u_labels := Some PNone, u_trace_str := Some (PStr []), u_span_id_str := Some (PStr []),
         u_http_request_str := Some ''{}'',
         u_source_location_str := Some (json_text (PDict [(''line'', PInt 12),
                                          (''file'', PStr ''/app/main.py''), (''function'', PStr ''run'')])),
         u_labels_str := Some ''{}'',
         u_msg_str := Some ''hi''\<rparr>) =
     Inr (True, example_record
        \<lparr>u_resource := Some PNone, u_trace := Some PNone, u_span_id := Some PNone,
         u_http_request := Some PNone,
         u_source_location := Some (PDict [(''line'', PInt 12), (''file'', PStr ''/app/main.py''),
                                          (''function'', PStr ''run'')]),
         u_labels := Some PNone, u_trace_str := Some (PStr []), u_span_id_str := Some (PStr []),
         u_http_request_str := Some ''{}'',
         u_source_location_str := Some (json_text (PDict [(''line'', PInt 12),
                                          (''file'', PStr ''/app/main.py''), (''function'', PStr ''run'')])),
         u_labels_str := Some ''{}'',
         u_msg_str := Some ''hi''\<rparr>)"
proof -
  have h: "filter' (CloudLoggingFilter None None) example_record =
     Inr (True, example_record
        \<lparr>u_resource := Some PNone, u_trace := Some PNone, u_span_id := Some PNone,
         u_http_request := Some PNone,
         u_source_location := Some (PDict [(''line'', PInt 12), (''file'', PStr ''/app/main.py''),
                                          (''function'', PStr ''run'')]),
         u_labels := Some PNone, u_trace_str := Some (PStr []), u_span_id_str := Some (PStr []),
         u_http_request_str := Some ''{}'',
         u_source_location_str := Some (json_text (PDict [(''line'', PInt 12),
                                          (''file'', PStr ''/app/main.py''), (''function'', PStr ''run'')])),
         u_labels_str := Some ''{}'',
         u_msg_str := Some ''hi''\<rparr>)"
    by (simp add: filter'_Inr example_record_def CloudLoggingFilter_def infer_source_location_unfold
        py_or_def py_str_def replace_quotes_def)
  from h filter_idempotent [OF h] show ?thesis by simp
qed

section \<open>Properties of the formatter and the handler\<close>

lemma gcp_formatMessage_eq:
  "gcp_formatMessage r =
    (if u_formatted_msg r = None \<or> u_labels_str r = None \<or> u_trace_str r = None \<or> u_span_id_str r = None
        \<or> u_source_location_str r = None \<or> u_http_request_str r = None then Inl KeyError
     else Inr (GCP_FORMAT (the (u_formatted_msg r)) (levelname r) (the (u_labels_str r))
                (py_str (the (u_trace_str r))) (py_str (the (u_span_id_str r)))
                (the (u_source_location_str r)) (the (u_http_request_str r))))"
  by (simp add: gcp_formatMessage_def split: option.splits)

lemma Formatter_format_default:
  "\<exists>r'. Formatter_format default_formatMessage r =
     Inr (let e = (if exc_info r \<noteq> None \<and> \<not> str_truthy (exc_text r) then exc_info r else exc_text r);
               s1 = (if str_truthy e then append_block (getMessage r) (the e) else getMessage r)
           in if str_truthy (stack_info r) then append_block s1 (the (stack_info r)) else s1, r')
     \<and> levelname r' = levelname r \<and> stack_info r' = stack_info r
     \<and> u_labels_str r' = u_labels_str r \<and> u_trace_str r' = u_trace_str r
     \<and> u_span_id_str r' = u_span_id_str r \<and> u_source_location_str r' = u_source_location_str r
     \<and> u_http_request_str r' = u_http_request_str r"
  by (simp add: Formatter_format_def default_formatMessage_def Let_def)

lemma Formatter_format_gcp:
  "map_sum id fst (Formatter_format gcp_formatMessage (r\<lparr>u_formatted_msg := Some m, exc_info := None, exc_text := None\<rparr>)) =
    (if u_labels_str r = None \<or> u_trace_str r = None \<or> u_span_id_str r = None
        \<or> u_source_location_str r = None \<or> u_http_request_str r = None then Inl KeyError
     else Inr (let s = GCP_FORMAT m (levelname r) (the (u_labels_str r))
                (py_str (the (u_trace_str r))) (py_str (the (u_span_id_str r)))
                (the (u_source_location_str r)) (the (u_http_request_str r))
               in if str_truthy (stack_info r) then append_block s (the (stack_info r)) else s))"
  by (simp add: Formatter_format_def gcp_formatMessage_eq Let_def str_truthy_def)

lemma format_text:
  "map_sum id fst (format h r) =
    (if u_labels_str r = None \<or> u_trace_str r = None \<or> u_span_id_str r = None
        \<or> u_source_location_str r = None \<or> u_http_request_str r = None then Inl KeyError
     else Inr (let s = GCP_FORMAT (json_string (payload r)) (levelname r) (the (u_labels_str r))
                (py_str (the (u_trace_str r))) (py_str (the (u_span_id_str r)))
                (the (u_source_location_str r)) (the (u_http_request_str r))
               in if str_truthy (stack_info r) then append_block s (the (stack_info r)) else s))"
proof (cases "truthy (msg r)")
  case False
  then show ?thesis
    unfolding format_def
    by (simp add: json_dumps_def py_or_def Formatter_format_gcp payload_def)
next
  case True
  obtain r' where r': "Formatter_format default_formatMessage r = Inr (payload r, r')"
    and eqs: "levelname r' = levelname r" "stack_info r' = stack_info r"
      "u_labels_str r' = u_labels_str r" "u_trace_str r' = u_trace_str r"
      "u_span_id_str r' = u_span_id_str r" "u_source_location_str r' = u_source_location_str r"
      "u_http_request_str r' = u_http_request_str r"
    using Formatter_format_default [of r] True unfolding payload_def by auto
  have po: "py_or (PStr s) (PStr []) = PStr s" for s
    by (simp add: py_or_def)
  show ?thesis
    unfolding format_def
    by (simp add: True r' json_dumps_def po Formatter_format_gcp eqs cong: if_cong)
qed


lemma getMessage_cong:
  "msg r' = msg r \<Longrightarrow> args r' = args r \<Longrightarrow> getMessage r' = getMessage r"
  by (simp add: getMessage_def cong: option.case_cong)

lemma payload_cong:
  assumes "msg r' = msg r" "args r' = args r" "exc_info r' = exc_info r" "exc_text r' = exc_text r"
    "stack_info r' = stack_info r"
  shows "payload r' = payload r"
  unfolding payload_def Let_def getMessage_cong [OF assms(1,2)] assms ..

lemma case_sum_fst:
  "(case x of Inl e \<Rightarrow> A | Inr (s, r2) \<Rightarrow> B s) = (case map_sum id fst x of Inl e \<Rightarrow> A | Inr s \<Rightarrow> B s)"
  by (cases x) (auto split: prod.splits)

lemma filter'_Inl:
  "filter' self r = Inl e \<longleftrightarrow>
     e = TypeError \<and> \<not> (\<exists>d. getattr (labels r) (PDict []) = PDict d
     \<and> serializable (py_or (getattr (http_request r) PNone) (PDict []))
     \<and> serializable (py_or (infer_source_location r) (PDict []))
     \<and> serializable_items (dict_update (default_labels self) d))"
proof -
  have e: "filter' self r = Inl a \<Longrightarrow> a = TypeError" for a
    unfolding filter'_def filter_body_def Let_def
    by (auto simp: json_dumps_def dict_unpack2_def split: sum.splits pyval.splits if_splits)
  have "filter' self r = Inl e \<longleftrightarrow> e = TypeError \<and> \<not> (\<exists>k r'. filter' self r = Inr (k, r'))"
    using e by (cases "filter' self r") auto
  then show ?thesis
    unfolding filter'_Inr by auto
qed

lemma GCP_FORMAT_block:
  "append_block (GCP_FORMAT a b c d e f g) t = GCP_FORMAT a b c d e f g @ CHR 0x0A # t"
  by (simp add: append_block_def GCP_FORMAT_def)

lemma handle_eq:
  "handle h r =
    (case getattr (labels r) (PDict []) of
       PDict d \<Rightarrow>
        if serializable (py_or (getattr (http_request r) PNone) (PDict []))
         \<and> serializable (py_or (infer_source_location r) (PDict []))
         \<and> serializable_items (dict_update (default_labels (log_filter h)) d)
        then Inr (Some (GCP_FORMAT (json_string (payload r)) (levelname r)
                (json_text (PDict (dict_update (default_labels (log_filter h)) d)))
                (py_str (py_or (py_or (getattr (trace r) PNone) PNone) (PStr [])))
                (py_str (py_or (py_or (getattr (span_id r) PNone) PNone) (PStr [])))
                (json_text (py_or (infer_source_location r) (PDict [])))
                (json_text (py_or (getattr (http_request r) PNone) (PDict [])))
              @ stack_suffix r @ [CHR 0x0A]))
        else Inl TypeError
     | _ \<Rightarrow> Inl TypeError)"
proof (cases "\<exists>d. getattr (labels r) (PDict []) = PDict d
     \<and> serializable (py_or (getattr (http_request r) PNone) (PDict []))
     \<and> serializable (py_or (infer_source_location r) (PDict []))
     \<and> serializable_items (dict_update (default_labels (log_filter h)) d)")
  case False
  then have "filter' (log_filter h) r = Inl TypeError"
    unfolding filter'_Inl by simp
  then show ?thesis
    using False by (auto simp: handle_def split: pyval.splits)
next
  case True
  then obtain d where d: "getattr (labels r) (PDict []) = PDict d"
    and s: "serializable (py_or (getattr (http_request r) PNone) (PDict []))"
      "serializable (py_or (infer_source_location r) (PDict []))"
      "serializable_items (dict_update (default_labels (log_filter h)) d)"
    by blast
  define r1 where "r1 = r
        \<lparr>u_resource := Some (getattr (resource r) PNone),
         u_trace := Some (py_or (getattr (trace r) PNone) PNone),
         u_span_id := Some (py_or (getattr (span_id r) PNone) PNone),
         u_http_request := Some (getattr (http_request r) PNone),
         u_source_location := Some (infer_source_location r),
         u_labels := Some (py_or (PDict (dict_update (default_labels (log_filter h)) d)) PNone),
         u_trace_str := Some (py_or (py_or (getattr (trace r) PNone) PNone) (PStr [])),
         u_span_id_str := Some (py_or (py_or (getattr (span_id r) PNone) PNone) (PStr [])),
         u_http_request_str := Some (json_text (py_or (getattr (http_request r) PNone) (PDict []))),
         u_source_location_str := Some (json_text (py_or (infer_source_location r) (PDict []))),
         u_labels_str := Some (json_text (PDict (dict_update (default_labels (log_filter h)) d))),
         u_msg_str := Some (if truthy (msg r) then replace_quotes (py_str (msg r)) else [])\<rparr>"
  have f: "filter' (log_filter h) r = Inr (True, r1)"
    unfolding filter'_Inr r1_def using d s by simp
  have p: "payload r1 = payload r"
    by (rule payload_cong) (simp_all add: r1_def)
  have t: "map_sum id fst (format h r1) =
     Inr (GCP_FORMAT (json_string (payload r)) (levelname r)
                (json_text (PDict (dict_update (default_labels (log_filter h)) d)))
                (py_str (py_or (py_or (getattr (trace r) PNone) PNone) (PStr [])))
                (py_str (py_or (py_or (getattr (span_id r) PNone) PNone) (PStr [])))
                (json_text (py_or (infer_source_location r) (PDict [])))
                (json_text (py_or (getattr (http_request r) PNone) (PDict [])))
              @ stack_suffix r)"
    unfolding format_text p
    by (simp add: r1_def stack_suffix_def GCP_FORMAT_block Let_def)
  show ?thesis
    unfolding handle_def f
    by (simp add: case_sum_fst t d s)
qed

lemma payload_frame: "payload (r\<lparr>resource := x\<rparr>) = payload r"
  by (rule payload_cong) simp_all

lemma map_of_dict_set: "map_of (dict_set d k v) = (map_of d)(k \<mapsto> v)"
  by (induction d k v rule: dict_set.induct) auto

lemma map_of_dict_update:
  "distinct (map fst u) \<Longrightarrow> map_of (dict_update d u) = map_of d ++ map_of u"
proof (induction d u rule: dict_update.induct)
  case (1 d)
  then show ?case by simp
next
  case (2 d k v kvs)
  from 2(2) have k: "map_of kvs k = None" and dist: "distinct (map fst kvs)"
    by (auto simp: map_of_eq_None_iff)
  have ih: "map_of (dict_update (dict_set d k v) kvs) = map_of (dict_set d k v) ++ map_of kvs"
    using 2(1) dist by blast
  show ?case
  proof (rule ext)
    fix x
    show "map_of (dict_update d ((k, v) # kvs)) x = (map_of d ++ map_of ((k, v) # kvs)) x"
      using k by (cases "x = k") (simp_all add: ih map_of_dict_set map_add_def split: option.splits)
  qed
qed

lemma serializable_items_dict_set:
  "serializable_items d \<Longrightarrow> serializable v \<Longrightarrow> serializable_items (dict_set d k v)"
  by (induction d k v rule: dict_set.induct) auto

lemma serializable_items_dict_update:
  "serializable_items d \<Longrightarrow> serializable_items u \<Longrightarrow> serializable_items (dict_update d u)"
  by (induction d u rule: dict_update.induct) (auto simp: serializable_items_dict_set)

lemma handle_after_filter:
  assumes "filter' (log_filter h) r = Inr (k, r')"
  shows "handle h r = Inr (Some (GCP_FORMAT (json_string (payload r)) (levelname r)
           (the (u_labels_str r')) (py_str (the (u_trace_str r'))) (py_str (the (u_span_id_str r')))
           (the (u_source_location_str r')) (the (u_http_request_str r'))
           @ stack_suffix r @ [CHR 0x0A]))"
proof -
  from assms obtain d where d: "getattr (labels r) (PDict []) = PDict d"
    and s: "serializable (py_or (getattr (http_request r) PNone) (PDict []))"
      "serializable (py_or (infer_source_location r) (PDict []))"
      "serializable_items (dict_update (default_labels (log_filter h)) d)"
    and f: "u_labels_str r' = Some (json_text (PDict (dict_update (default_labels (log_filter h)) d)))"
      "u_trace_str r' = Some (py_or (py_or (getattr (trace r) PNone) PNone) (PStr []))"
      "u_span_id_str r' = Some (py_or (py_or (getattr (span_id r) PNone) PNone) (PStr []))"
      "u_source_location_str r' = Some (json_text (py_or (infer_source_location r) (PDict [])))"
      "u_http_request_str r' = Some (json_text (py_or (getattr (http_request r) PNone) (PDict [])))"
    unfolding filter'_Inr by auto
  show ?thesis
    unfolding handle_eq by (simp add: d s f)
qed


text \<open>
  Claim C9. The filter copies a \<^verbatim>\<open>resource\<close> supplied on the record to the attribute
  \<^verbatim>\<open>_resource\<close> (\<open>None\<close> when there is none), and the text that the handler writes does
  not depend on it: the handler writes the same text, or raises the same error, whatever the
  record's \<^verbatim>\<open>resource\<close> attribute is and whether it is set or not.
\<close>

theorem resource_not_in_output:
  "handle h (r\<lparr>resource := x\<rparr>) = handle h r
   \<and> (filter' flt r = Inr (k, r') \<longrightarrow> u_resource r' = Some (getattr (resource r) PNone))"
proof -
  have i: "infer_source_location (r\<lparr>resource := x\<rparr>) = infer_source_location r"
    by (rule infer_source_location_cong) simp_all
  have s: "stack_suffix (r\<lparr>resource := x\<rparr>) = stack_suffix r"
    by (simp add: stack_suffix_def)
  have "handle h (r\<lparr>resource := x\<rparr>) = handle h r"
    unfolding handle_eq i s payload_frame by (simp cong: pyval.case_cong if_cong)
  moreover have "filter' flt r = Inr (k, r') \<longrightarrow> u_resource r' = Some (getattr (resource r) PNone)"
    unfolding filter'_Inr by auto
  ultimately show ?thesis by simp
qed

theorem resource_not_in_output_witness:
  \<open>handle (StructuredLogHandler None None) (example_record\<lparr>resource := Some (PStr ''gce_instance'')\<rparr>)
     = handle (StructuredLogHandler None None) example_record
   \<and> handle (StructuredLogHandler None None) example_record
     = Inr (Some (''{"message": "hi", "severity": "INFO", "logging.googleapis.com/labels": {}, ''
          @ ''"logging.googleapis.com/trace": "", "logging.googleapis.com/spanId": "", ''
          @ ''"logging.googleapis.com/sourceLocation": {"line": 12, "file": "/app/main.py", "function": "run"}, ''
          @ ''"httpRequest": {} }'' @ [CHR 0x0A]))
   \<and> \<not> isl (filter' (CloudLoggingFilter None None) (example_record\<lparr>resource := Some (PStr ''gce_instance'')\<rparr>))
   \<and> u_resource (snd (projr (filter' (CloudLoggingFilter None None)
         (example_record\<lparr>resource := Some (PStr ''gce_instance'')\<rparr>)))) = Some (PStr ''gce_instance'')\<close>
proof -
  obtain k r' where h: "filter' (CloudLoggingFilter None None)
      (example_record\<lparr>resource := Some (PStr ''gce_instance'')\<rparr>) = Inr (k, r')"
    unfolding filter'_Inr
    by (simp add: example_record_def CloudLoggingFilter_def infer_source_location_unfold py_or_def)
  have l: \<open>handle (StructuredLogHandler None None) example_record
     = Inr (Some (''{"message": "hi", "severity": "INFO", "logging.googleapis.com/labels": {}, ''
          @ ''"logging.googleapis.com/trace": "", "logging.googleapis.com/spanId": "", ''
          @ ''"logging.googleapis.com/sourceLocation": {"line": 12, "file": "/app/main.py", "function": "run"}, ''
          @ ''"httpRequest": {} }'' @ [CHR 0x0A]))\<close>
    by code_simp
  have e: "example_record\<lparr>resource := Some (PStr ''gce_instance''), resource := None\<rparr> = example_record"
    by (simp add: example_record_def)
  from resource_not_in_output [where h = "StructuredLogHandler None None"
      and r = "example_record\<lparr>resource := Some (PStr ''gce_instance'')\<rparr>" and x = None
      and flt = "CloudLoggingFilter None None" and k = k and r' = r'] h l e
  show ?thesis by simp
qed

text \<open>
  Claim C6. The source location that the filter attaches is the caller's
  \<^verbatim>\<open>source_location\<close> when the record has that attribute; otherwise it is the mapping of
  \<^verbatim>\<open>line\<close>, \<^verbatim>\<open>file\<close> and \<^verbatim>\<open>function\<close> to the record's line number, path and
  function name, in that order and leaving out each one that is \<open>None\<close>; when all three are
  left out it is \<open>None\<close>, not an empty mapping.
\<close>

theorem source_location_derived:
  assumes "filter' flt r = Inr (k, r')"
  shows "u_source_location r' = Some
    (case source_location r of
       Some v \<Rightarrow> v
     | None \<Rightarrow>
        (let out = (if lineno r \<noteq> PNone then [(''line'', lineno r)] else [])
                 @ (if pathname r \<noteq> PNone then [(''file'', pathname r)] else [])
                 @ (if funcName r \<noteq> PNone then [(''function'', funcName r)] else [])
         in if out = [] then PNone else PDict out))"
proof -
  from assms have "u_source_location r' = Some (infer_source_location r)"
    unfolding filter'_Inr by auto
  then show ?thesis
    by (simp add: infer_source_location_def name_map_def Let_def split: option.splits)
qed

theorem source_location_derived_witness:
  "\<not> isl (filter' (CloudLoggingFilter None None) (example_record\<lparr>funcName := PNone\<rparr>))
   \<and> u_source_location (snd (projr (filter' (CloudLoggingFilter None None) (example_record\<lparr>funcName := PNone\<rparr>))))
      = Some (PDict [(''line'', PInt 12), (''file'', PStr ''/app/main.py'')])"
proof -
  obtain k r' where h: "filter' (CloudLoggingFilter None None) (example_record\<lparr>funcName := PNone\<rparr>) = Inr (k, r')"
    unfolding filter'_Inr
    by (simp add: example_record_def CloudLoggingFilter_def infer_source_location_unfold py_or_def)
  from source_location_derived [OF h] h show ?thesis
    by (simp add: example_record_def)
qed

text \<open>
  Claim C10. A mapping given as \<^verbatim>\<open>source_location\<close> is used as it is, with any keys and
  with null values kept, the empty mapping included: the filter attaches it unchanged, its
  serialized form is \<^verbatim>\<open>json.dumps\<close> of it and stands in the line that the handler writes,
  and the record's own line number, path and function name play no part.
\<close>

theorem source_location_override_verbatim:
  assumes "source_location r = Some (PDict d)"
    and "filter' (log_filter h) r = Inr (k, r')"
  shows "u_source_location r' = Some (PDict d)
    \<and> u_source_location_str r' = Some (json_text (PDict d))
    \<and> serializable_items d
    \<and> infer_source_location (r\<lparr>lineno := a, pathname := b, funcName := c\<rparr>) = PDict d
    \<and> handle h r = Inr (Some (GCP_FORMAT (json_string (payload r)) (levelname r)
           (the (u_labels_str r')) (py_str (the (u_trace_str r'))) (py_str (the (u_span_id_str r')))
           (json_text (PDict d)) (the (u_http_request_str r'))
           @ stack_suffix r @ [CHR 0x0A]))"
proof -
  have i: "infer_source_location r = PDict d"
    using assms(1) by (simp add: infer_source_location_def)
  have p: "py_or (PDict d) (PDict []) = PDict d"
    by (simp add: py_or_def)
  from assms(2) have a: "u_source_location r' = Some (PDict d)"
    and b: "u_source_location_str r' = Some (json_text (PDict d))"
    and c: "serializable_items d"
    unfolding filter'_Inr i p by auto
  have e: "infer_source_location (r\<lparr>lineno := a, pathname := b, funcName := c\<rparr>) = PDict d"
    using assms(1) by (simp add: infer_source_location_def)
  from handle_after_filter [OF assms(2)] a b c e show ?thesis by simp
qed

theorem source_location_override_verbatim_witness:
  \<open>source_location (example_record\<lparr>source_location := Some (PDict [(''module'', PStr ''m''), (''line'', PNone)])\<rparr>)
      = Some (PDict [(''module'', PStr ''m''), (''line'', PNone)])
   \<and> \<not> isl (filter' (log_filter (StructuredLogHandler None None))
        (example_record\<lparr>source_location := Some (PDict [(''module'', PStr ''m''), (''line'', PNone)])\<rparr>))
   \<and> handle (StructuredLogHandler None None)
        (example_record\<lparr>source_location := Some (PDict [(''module'', PStr ''m''), (''line'', PNone)])\<rparr>)
     = Inr (Some (''{"message": "hi", "severity": "INFO", "logging.googleapis.com/labels": {}, ''
          @ ''"logging.googleapis.com/trace": "", "logging.googleapis.com/spanId": "", ''
          @ ''"logging.googleapis.com/sourceLocation": {"module": "m", "line": null}, ''
          @ ''"httpRequest": {} }'' @ [CHR 0x0A]))\<close>
proof -
  let ?r = "example_record\<lparr>source_location := Some (PDict [(''module'', PStr ''m''), (''line'', PNone)])\<rparr>"
  have s: "source_location ?r = Some (PDict [(''module'', PStr ''m''), (''line'', PNone)])"
    by simp
  obtain k r' where h: "filter' (log_filter (StructuredLogHandler None None)) ?r = Inr (k, r')"
    unfolding filter'_Inr
    by (simp add: example_record_def StructuredLogHandler_def CloudLoggingFilter_def
        infer_source_location_unfold py_or_def)
  have v: "u_labels_str r' = Some ''{}''" "u_trace_str r' = Some (PStr [])"
    "u_span_id_str r' = Some (PStr [])" "u_http_request_str r' = Some ''{}''"
    using h unfolding filter'_Inr
    by (auto simp: example_record_def StructuredLogHandler_def CloudLoggingFilter_def py_or_def)
  have p: "payload ?r = ''hi''" "stack_suffix ?r = []" "levelname ?r = ''INFO''"
    by (simp_all add: payload_def stack_suffix_def example_record_def getMessage_def py_str_def str_truthy_def)
  from source_location_override_verbatim [OF s h] h
  show ?thesis
    by (simp add: v p GCP_FORMAT_def json_string_def json_escape_char_def py_str_def)
qed

lemma serializable_py_or: "serializable v \<Longrightarrow> serializable (py_or v (PDict []))"
  by (simp add: py_or_def)

text \<open>
  Claim C8. The filter never returns false, for any filter and record. It returns true on every
  record whose override attributes are each absent or well formed (labels a mapping of JSON
  values, \<^verbatim>\<open>http_request\<close> and \<^verbatim>\<open>source_location\<close> JSON values; trace, span id and
  resource are free), given that the default labels and the record's own line number, path and
  function name are JSON values. In particular it returns true when all six are absent.
\<close>

theorem filter_always_keeps:
  assumes "serializable_items (default_labels flt)"
    and "serializable (lineno r)" "serializable (pathname r)" "serializable (funcName r)"
    and "labels r = None \<or> (\<exists>d. labels r = Some (PDict d) \<and> serializable_items d)"
    and "http_request r = None \<or> (\<exists>v. http_request r = Some v \<and> serializable v)"
    and "source_location r = None \<or> (\<exists>v. source_location r = Some v \<and> serializable v)"
  shows "(\<exists>r'. filter' flt r = Inr (True, r')) \<and> (\<forall>flt0 r0 r'. filter' flt0 r0 \<noteq> Inr (False, r'))"
proof -
  from assms(5) obtain d where d: "getattr (labels r) (PDict []) = PDict d" "serializable_items d"
    by auto
  have l: "serializable_items (dict_update (default_labels flt) d)"
    using assms(1) d(2) by (rule serializable_items_dict_update)
  have "serializable (getattr (http_request r) PNone)"
    using assms(6) by auto
  then have h: "serializable (py_or (getattr (http_request r) PNone) (PDict []))"
    by (rule serializable_py_or)
  have "serializable (infer_source_location r)"
    using assms(2,3,4,7) by (auto simp: infer_source_location_unfold)
  then have s: "serializable (py_or (infer_source_location r) (PDict []))"
    by (rule serializable_py_or)
  have "\<exists>r'. filter' flt r = Inr (True, r')"
    unfolding filter'_Inr using d(1) l h s by simp
  moreover have "\<forall>flt0 r0 r'. filter' flt0 r0 \<noteq> Inr (False, r')"
    unfolding filter'_Inr by simp
  ultimately show ?thesis by simp
qed

theorem filter_always_keeps_witness:
  "serializable_items (default_labels (CloudLoggingFilter None None))
   \<and> serializable (lineno example_record) \<and> serializable (pathname example_record)
   \<and> serializable (funcName example_record)
   \<and> labels example_record = None \<and> trace example_record = None \<and> span_id example_record = None
   \<and> http_request example_record = None \<and> source_location example_record = None
   \<and> resource example_record = None
   \<and> (\<exists>r'. filter' (CloudLoggingFilter None None) example_record = Inr (True, r'))"
proof -
  have a: "serializable_items (default_labels (CloudLoggingFilter None None))"
    by (simp add: CloudLoggingFilter_def)
  have b: "serializable (lineno example_record)" "serializable (pathname example_record)"
    "serializable (funcName example_record)"
    by (simp_all add: example_record_def)
  have c: "labels example_record = None" "http_request example_record = None"
    "source_location example_record = None" "trace example_record = None"
    "span_id example_record = None" "resource example_record = None"
    by (simp_all add: example_record_def)
  from filter_always_keeps [OF a b, of ] c a b
  show ?thesis by simp
qed

text \<open>
  Claim C3. When the filter returns on a record whose labels are the mapping \<open>u\<close> (empty when
  the record has none), the merged labels are the default labels overridden by \<open>u\<close>: looking a
  key up in them gives the value in \<open>u\<close> if \<open>u\<close> has the key and the default value otherwise. The
  filter attaches the merged mapping, or \<open>None\<close> when it is empty; the serialized labels, which
  stand in the line that the handler writes, are \<^verbatim>\<open>json.dumps\<close> of the merged mapping, and
  are \<^verbatim>\<open>{}\<close> when both mappings are empty.
\<close>

theorem labels_merged:
  assumes "filter' (log_filter h) r = Inr (k, r')"
    and "getattr (labels r) (PDict []) = PDict u"
    and "distinct (map fst u)"
  shows "map_of (dict_update (default_labels (log_filter h)) u) = map_of (default_labels (log_filter h)) ++ map_of u
    \<and> u_labels r' = Some (if dict_update (default_labels (log_filter h)) u = [] then PNone
                          else PDict (dict_update (default_labels (log_filter h)) u))
    \<and> u_labels_str r' = Some (json_text (PDict (dict_update (default_labels (log_filter h)) u)))
    \<and> (default_labels (log_filter h) = [] \<and> u = [] \<longrightarrow> u_labels_str r' = Some ''{}'')
    \<and> handle h r = Inr (Some (GCP_FORMAT (json_string (payload r)) (levelname r)
           (json_text (PDict (dict_update (default_labels (log_filter h)) u)))
           (py_str (the (u_trace_str r'))) (py_str (the (u_span_id_str r')))
           (the (u_source_location_str r')) (the (u_http_request_str r'))
           @ stack_suffix r @ [CHR 0x0A]))"
proof -
  from assms(1,2) have a: "u_labels r' = Some (py_or (PDict (dict_update (default_labels (log_filter h)) u)) PNone)"
    and b: "u_labels_str r' = Some (json_text (PDict (dict_update (default_labels (log_filter h)) u)))"
    unfolding filter'_Inr by auto
  have c: "default_labels (log_filter h) = [] \<and> u = [] \<longrightarrow> u_labels_str r' = Some ''{}''"
    using b by simp
  from a b c map_of_dict_update [OF assms(3)] handle_after_filter [OF assms(1)]
  show ?thesis by (simp add: py_or_def)
qed

theorem labels_merged_witness:
  \<open>\<not> isl (filter' (log_filter (StructuredLogHandler (Some [(''b'', PStr ''2'')]) None))
        (example_record\<lparr>labels := Some (PDict [(''b'', PStr ''9''), (''a'', PStr ''1'')])\<rparr>))
   \<and> getattr (labels (example_record\<lparr>labels := Some (PDict [(''b'', PStr ''9''), (''a'', PStr ''1'')])\<rparr>)) (PDict [])
       = PDict [(''b'', PStr ''9''), (''a'', PStr ''1'')]
   \<and> distinct (map fst [(''b'', PStr ''9''), (''a'', PStr ''1'')])
   \<and> u_labels (snd (projr (filter' (log_filter (StructuredLogHandler (Some [(''b'', PStr ''2'')]) None))
        (example_record\<lparr>labels := Some (PDict [(''b'', PStr ''9''), (''a'', PStr ''1'')])\<rparr>))))
       = Some (PDict [(''b'', PStr ''9''), (''a'', PStr ''1'')])
   \<and> handle (StructuredLogHandler (Some [(''b'', PStr ''2'')]) None)
        (example_record\<lparr>labels := Some (PDict [(''b'', PStr ''9''), (''a'', PStr ''1'')])\<rparr>)
     = Inr (Some (''{"message": "hi", "severity": "INFO", ''
          @ ''"logging.googleapis.com/labels": {"b": "9", "a": "1"}, ''
          @ ''"logging.googleapis.com/trace": "", "logging.googleapis.com/spanId": "", ''
          @ ''"logging.googleapis.com/sourceLocation": {"line": 12, "file": "/app/main.py", "function": "run"}, ''
          @ ''"httpRequest": {} }'' @ [CHR 0x0A]))
   \<and> \<not> isl (filter' (log_filter (StructuredLogHandler None None)) example_record)
   \<and> default_labels (log_filter (StructuredLogHandler None None)) = []
   \<and> getattr (labels example_record) (PDict []) = PDict []
   \<and> u_labels (snd (projr (filter' (log_filter (StructuredLogHandler None None)) example_record))) = Some PNone
   \<and> u_labels_str (snd (projr (filter' (log_filter (StructuredLogHandler None None)) example_record)))
       = Some ''{}''\<close>
proof -
  let ?h = "StructuredLogHandler (Some [(''b'', PStr ''2'')]) None"
  let ?r = "example_record\<lparr>labels := Some (PDict [(''b'', PStr ''9''), (''a'', PStr ''1'')])\<rparr>"
  have d: "default_labels (log_filter ?h) = [(''b'', PStr ''2'')]"
    by (simp add: StructuredLogHandler_def CloudLoggingFilter_def)
  obtain k r' where f: "filter' (log_filter ?h) ?r = Inr (k, r')"
    unfolding filter'_Inr
    by (simp add: d example_record_def infer_source_location_unfold py_or_def)
  have g: "getattr (labels ?r) (PDict []) = PDict [(''b'', PStr ''9''), (''a'', PStr ''1'')]"
    by simp
  have i: "distinct (map fst [(''b'', PStr ''9''), (''a'', PStr ''1'')])"
    by simp
  have l: \<open>handle ?h ?r
     = Inr (Some (''{"message": "hi", "severity": "INFO", ''
          @ ''"logging.googleapis.com/labels": {"b": "9", "a": "1"}, ''
          @ ''"logging.googleapis.com/trace": "", "logging.googleapis.com/spanId": "", ''
          @ ''"logging.googleapis.com/sourceLocation": {"line": 12, "file": "/app/main.py", "function": "run"}, ''
          @ ''"httpRequest": {} }'' @ [CHR 0x0A]))\<close>
    by code_simp
  let ?h0 = "StructuredLogHandler None None"
  have d0: "default_labels (log_filter ?h0) = []"
    by (simp add: StructuredLogHandler_def CloudLoggingFilter_def)
  obtain k0 r0 where f0: "filter' (log_filter ?h0) example_record = Inr (k0, r0)"
    unfolding filter'_Inr
    by (simp add: d0 example_record_def infer_source_location_unfold py_or_def)
  have g0: "getattr (labels example_record) (PDict []) = PDict []"
    by (simp add: example_record_def)
  have i0: "distinct (map fst ([] :: (string \<times> pyval) list))"
    by simp
  from labels_merged [OF f g i] labels_merged [OF f0 g0 i0] f g i l f0 g0 show ?thesis
    by (simp add: d d0)
qed

text \<open>
  Claim C7. For a record whose message is falsy, on which the filter has returned, \<^verbatim>\<open>format\<close>
  returns the template with the two characters \<^verbatim>\<open>""\<close> as its message field and the
  record's level name as its severity field, and that is the line that the handler writes. This
  holds with or without exception information on the record.
\<close>

theorem empty_message_line:
  assumes "\<not> truthy (msg r)"
    and "filter' (log_filter h) r = Inr (k, r1)"
  shows "(\<exists>r2. format h r1 =
            Inr (GCP_FORMAT [CHR 0x22, CHR 0x22] (levelname r) (the (u_labels_str r1))
                  (py_str (the (u_trace_str r1))) (py_str (the (u_span_id_str r1)))
                  (the (u_source_location_str r1)) (the (u_http_request_str r1)) @ stack_suffix r, r2))
       \<and> handle h r =
            Inr (Some (GCP_FORMAT [CHR 0x22, CHR 0x22] (levelname r) (the (u_labels_str r1))
                  (py_str (the (u_trace_str r1))) (py_str (the (u_span_id_str r1)))
                  (the (u_source_location_str r1)) (the (u_http_request_str r1)) @ stack_suffix r
                  @ [CHR 0x0A]))"
proof -
  have p: "json_string (payload r) = [CHR 0x22, CHR 0x22]"
    using assms(1) by (simp add: payload_def json_string_def)
  from assms(2) have raw: "msg r1 = msg r" "args r1 = args r" "exc_info r1 = exc_info r"
    "exc_text r1 = exc_text r" "stack_info r1 = stack_info r" "levelname r1 = levelname r"
    and set: "u_labels_str r1 \<noteq> None" "u_trace_str r1 \<noteq> None" "u_span_id_str r1 \<noteq> None"
      "u_source_location_str r1 \<noteq> None" "u_http_request_str r1 \<noteq> None"
    unfolding filter'_Inr by auto
  have p1: "payload r1 = payload r"
    by (rule payload_cong) (simp_all add: raw)
  have "map_sum id fst (format h r1) =
     Inr (GCP_FORMAT [CHR 0x22, CHR 0x22] (levelname r) (the (u_labels_str r1))
                  (py_str (the (u_trace_str r1))) (py_str (the (u_span_id_str r1)))
                  (the (u_source_location_str r1)) (the (u_http_request_str r1)) @ stack_suffix r)"
    unfolding format_text p1 p using set
    by (simp add: raw stack_suffix_def GCP_FORMAT_block Let_def)
  then have a: "\<exists>r2. format h r1 =
            Inr (GCP_FORMAT [CHR 0x22, CHR 0x22] (levelname r) (the (u_labels_str r1))
                  (py_str (the (u_trace_str r1))) (py_str (the (u_span_id_str r1)))
                  (the (u_source_location_str r1)) (the (u_http_request_str r1)) @ stack_suffix r, r2)"
    by (cases "format h r1") auto
  from a handle_after_filter [OF assms(2)] show ?thesis
    by (simp add: p)
qed

theorem empty_message_line_witness:
  \<open>\<not> truthy (msg (example_record\<lparr>msg := PInt 0, levelname := ''WARNING''\<rparr>))
   \<and> \<not> isl (filter' (log_filter (StructuredLogHandler None None))
         (example_record\<lparr>msg := PInt 0, levelname := ''WARNING''\<rparr>))
   \<and> handle (StructuredLogHandler None None) (example_record\<lparr>msg := PInt 0, levelname := ''WARNING''\<rparr>)
     = Inr (Some (''{"message": "", "severity": "WARNING", "logging.googleapis.com/labels": {}, ''
          @ ''"logging.googleapis.com/trace": "", "logging.googleapis.com/spanId": "", ''
          @ ''"logging.googleapis.com/sourceLocation": {"line": 12, "file": "/app/main.py", "function": "run"}, ''
          @ ''"httpRequest": {} }'' @ [CHR 0x0A]))\<close>
proof -
  let ?h = "StructuredLogHandler None None"
  let ?r = "example_record\<lparr>msg := PInt 0, levelname := ''WARNING''\<rparr>"
  have t: "\<not> truthy (msg ?r)" by simp
  obtain k r1 where f: "filter' (log_filter ?h) ?r = Inr (k, r1)"
    unfolding filter'_Inr
    by (simp add: example_record_def StructuredLogHandler_def CloudLoggingFilter_def
        infer_source_location_unfold py_or_def)
  have v: "u_labels_str r1 = Some ''{}''" "u_trace_str r1 = Some (PStr [])"
    "u_span_id_str r1 = Some (PStr [])" "u_http_request_str r1 = Some ''{}''"
    "u_source_location_str r1 = Some (json_text (PDict [(''line'', PInt 12), (''file'', PStr ''/app/main.py''),
        (''function'', PStr ''run'')]))"
    using f unfolding filter'_Inr
    by (auto simp: example_record_def StructuredLogHandler_def CloudLoggingFilter_def py_or_def
        infer_source_location_unfold)
  have i: "int_repr 12 = ''12''" by code_simp
  have s: "stack_suffix ?r = []" "levelname ?r = ''WARNING''"
    by (simp_all add: stack_suffix_def example_record_def str_truthy_def)
  from empty_message_line [OF t f] f t show ?thesis
    by (simp add: v s i GCP_FORMAT_def json_string_def json_escape_char_def py_str_def)
qed

text \<open>
  Claim C1, as stated, fails. With the override
  \<^verbatim>\<open>{"foo": "bar", "requestMethod": "GET"}\<close> the filter attaches the whole mapping and the
  handler writes it whole: the key \<^verbatim>\<open>foo\<close> is not dropped.
\<close>

theorem http_request_filter_counterexample:
  \<open>handle (StructuredLogHandler None None)
      (example_record\<lparr>http_request := Some (PDict [(''foo'', PStr ''bar''), (''requestMethod'', PStr ''GET'')])\<rparr>)
     = Inr (Some (''{"message": "hi", "severity": "INFO", "logging.googleapis.com/labels": {}, ''
          @ ''"logging.googleapis.com/trace": "", "logging.googleapis.com/spanId": "", ''
          @ ''"logging.googleapis.com/sourceLocation": {"line": 12, "file": "/app/main.py", "function": "run"}, ''
          @ ''"httpRequest": {"foo": "bar", "requestMethod": "GET"} }'' @ [CHR 0x0A]))
   \<and> u_http_request (snd (projr (filter' (CloudLoggingFilter None None)
      (example_record\<lparr>http_request := Some (PDict [(''foo'', PStr ''bar''), (''requestMethod'', PStr ''GET'')])\<rparr>))))
     = Some (PDict [(''foo'', PStr ''bar''), (''requestMethod'', PStr ''GET'')])
   \<and> u_http_request (snd (projr (filter' (CloudLoggingFilter None None)
      (example_record\<lparr>http_request := Some (PDict [(''foo'', PStr ''bar''), (''requestMethod'', PStr ''GET'')])\<rparr>))))
     \<noteq> Some (PDict [(''requestMethod'', PStr ''GET'')])\<close>
proof -
  let ?r = "example_record\<lparr>http_request := Some (PDict [(''foo'', PStr ''bar''), (''requestMethod'', PStr ''GET'')])\<rparr>"
  have l: \<open>handle (StructuredLogHandler None None) ?r
     = Inr (Some (''{"message": "hi", "severity": "INFO", "logging.googleapis.com/labels": {}, ''
          @ ''"logging.googleapis.com/trace": "", "logging.googleapis.com/spanId": "", ''
          @ ''"logging.googleapis.com/sourceLocation": {"line": 12, "file": "/app/main.py", "function": "run"}, ''
          @ ''"httpRequest": {"foo": "bar", "requestMethod": "GET"} }'' @ [CHR 0x0A]))\<close>
    by code_simp
  obtain k r' where f: "filter' (CloudLoggingFilter None None) ?r = Inr (k, r')"
    unfolding filter'_Inr
    by (simp add: example_record_def CloudLoggingFilter_def infer_source_location_unfold py_or_def)
  then have "u_http_request r' = Some (PDict [(''foo'', PStr ''bar''), (''requestMethod'', PStr ''GET'')])"
    unfolding filter'_Inr by auto
  with l f show ?thesis by simp
qed

text \<open>
  Claim C1, amended. An \<^verbatim>\<open>http_request\<close> supplied on the record is attached as it is, with
  no filtering of keys or of null values, and its serialized form is \<^verbatim>\<open>json.dumps\<close> of it
  (of \<^verbatim>\<open>{}\<close> when it is falsy). Only a value inferred from the environment is restricted to
  the four recognized keys with its null values dropped, and it is used only when the record has
  no \<^verbatim>\<open>http_request\<close>. The filter takes the inferred value to be absent, so the handler
  writes the supplied value unfiltered.
\<close>

theorem http_request_override_unfiltered:
  assumes "filter_body self ih it isp r = Inr (k, r')"
  shows "u_http_request r' = Some
      (case http_request r of
         Some v \<Rightarrow> v
       | None \<Rightarrow>
          (case ih of
             Some d \<Rightarrow> PDict (filter (\<lambda>(key, v). key \<in> {''requestMethod'', ''requestUrl'', ''userAgent'', ''protocol''}
                                            \<and> v \<noteq> PNone) d)
           | None \<Rightarrow> PNone))
    \<and> u_http_request_str r' = Some (json_text (py_or (the (u_http_request r')) (PDict [])))
    \<and> (ih = None \<and> it = None \<and> isp = None \<and> self = log_filter h \<longrightarrow>
         u_http_request r' = Some (getattr (http_request r) PNone)
       \<and> handle h r = Inr (Some (GCP_FORMAT (json_string (payload r)) (levelname r)
           (the (u_labels_str r')) (py_str (the (u_trace_str r'))) (py_str (the (u_span_id_str r')))
           (the (u_source_location_str r'))
           (json_text (py_or (getattr (http_request r) PNone) (PDict [])))
           @ stack_suffix r @ [CHR 0x0A])))"
proof -
  from assms have a: "u_http_request r' = Some (getattr (http_request r) (getattr (case ih of
              Some d \<Rightarrow> Some (PDict (filter (\<lambda>(k, v). k \<in> set supported_http_fields \<and> v \<noteq> PNone) d))
            | None \<Rightarrow> None) PNone))"
    and b: "u_http_request_str r' = Some (json_text (py_or (getattr (http_request r) (getattr (case ih of
              Some d \<Rightarrow> Some (PDict (filter (\<lambda>(k, v). k \<in> set supported_http_fields \<and> v \<noteq> PNone) d))
            | None \<Rightarrow> None) PNone)) (PDict [])))"
    unfolding filter_body_Inr by (auto simp: json_dumps_Inr)
  have c: "u_http_request r' = Some
      (case http_request r of
         Some v \<Rightarrow> v
       | None \<Rightarrow>
          (case ih of
             Some d \<Rightarrow> PDict (filter (\<lambda>(key, v). key \<in> {''requestMethod'', ''requestUrl'', ''userAgent'', ''protocol''}
                                            \<and> v \<noteq> PNone) d)
           | None \<Rightarrow> PNone))"
    unfolding a by (simp add: supported_http_fields_def split: option.splits)
  have d: "u_http_request_str r' = Some (json_text (py_or (the (u_http_request r')) (PDict [])))"
    unfolding b a by simp
  have e: "u_http_request r' = Some (getattr (http_request r) PNone)
       \<and> handle h r = Inr (Some (GCP_FORMAT (json_string (payload r)) (levelname r)
           (the (u_labels_str r')) (py_str (the (u_trace_str r'))) (py_str (the (u_span_id_str r')))
           (the (u_source_location_str r'))
           (json_text (py_or (getattr (http_request r) PNone) (PDict [])))
           @ stack_suffix r @ [CHR 0x0A]))"
    if "ih = None \<and> it = None \<and> isp = None \<and> self = log_filter h"
  proof -
    from that assms have f: "filter' (log_filter h) r = Inr (k, r')"
      by (simp add: filter'_def)
    from that a b handle_after_filter [OF f] show ?thesis by simp
  qed
  from c d e show ?thesis by blast
qed

theorem http_request_override_unfiltered_witness:
  "\<not> isl (filter_body (CloudLoggingFilter None None)
        (Some [(''foo'', PStr ''bar''), (''requestMethod'', PStr ''GET''), (''userAgent'', PNone)]) None None
        example_record)
   \<and> u_http_request (snd (projr (filter_body (CloudLoggingFilter None None)
        (Some [(''foo'', PStr ''bar''), (''requestMethod'', PStr ''GET''), (''userAgent'', PNone)]) None None
        example_record)))
     = Some (PDict [(''requestMethod'', PStr ''GET'')])
   \<and> \<not> isl (filter_body (log_filter (StructuredLogHandler None None)) None None None
        (example_record\<lparr>http_request := Some (PDict [(''foo'', PStr ''bar''), (''userAgent'', PNone)])\<rparr>))
   \<and> u_http_request (snd (projr (filter_body (log_filter (StructuredLogHandler None None)) None None None
        (example_record\<lparr>http_request := Some (PDict [(''foo'', PStr ''bar''), (''userAgent'', PNone)])\<rparr>))))
     = Some (PDict [(''foo'', PStr ''bar''), (''userAgent'', PNone)])"
proof -
  let ?ih = "Some [(''foo'', PStr ''bar''), (''requestMethod'', PStr ''GET''), (''userAgent'', PNone)]"
  let ?r = "example_record\<lparr>http_request := Some (PDict [(''foo'', PStr ''bar''), (''userAgent'', PNone)])\<rparr>"
  obtain k r' where a: "filter_body (CloudLoggingFilter None None) ?ih None None example_record = Inr (k, r')"
    unfolding filter_body_Inr
    by (simp add: example_record_def CloudLoggingFilter_def infer_source_location_unfold py_or_def
        json_dumps_Inr dict_unpack2_Inr supported_http_fields_def)
  obtain k2 r2 where b: "filter_body (log_filter (StructuredLogHandler None None)) None None None ?r = Inr (k2, r2)"
    unfolding filter_body_Inr
    by (simp add: example_record_def StructuredLogHandler_def CloudLoggingFilter_def
        infer_source_location_unfold py_or_def json_dumps_Inr dict_unpack2_Inr)
  from http_request_override_unfiltered [OF a, of "StructuredLogHandler None None"]
    http_request_override_unfiltered [OF b, of "StructuredLogHandler None None"] a b
  show ?thesis
    by (simp add: example_record_def)
qed

text \<open>
  Claim C2, as stated, fails. With the project \<^verbatim>\<open>proj1\<close> configured and the trace
  \<^verbatim>\<open>abc123\<close> on the record, the filter attaches \<^verbatim>\<open>abc123\<close> and the handler writes
  \<^verbatim>\<open>abc123\<close>, not \<^verbatim>\<open>projects/proj1/traces/abc123\<close>.
\<close>

theorem trace_rewrite_counterexample:
  \<open>handle (StructuredLogHandler None (Some ''proj1'')) (example_record\<lparr>trace := Some (PStr ''abc123'')\<rparr>)
     = Inr (Some (''{"message": "hi", "severity": "INFO", "logging.googleapis.com/labels": {}, ''
          @ ''"logging.googleapis.com/trace": "abc123", "logging.googleapis.com/spanId": "", ''
          @ ''"logging.googleapis.com/sourceLocation": {"line": 12, "file": "/app/main.py", "function": "run"}, ''
          @ ''"httpRequest": {} }'' @ [CHR 0x0A]))
   \<and> project (log_filter (StructuredLogHandler None (Some ''proj1''))) = Some ''proj1''
   \<and> u_trace (snd (projr (filter' (log_filter (StructuredLogHandler None (Some ''proj1'')))
        (example_record\<lparr>trace := Some (PStr ''abc123'')\<rparr>)))) = Some (PStr ''abc123'')
   \<and> u_trace (snd (projr (filter' (log_filter (StructuredLogHandler None (Some ''proj1'')))
        (example_record\<lparr>trace := Some (PStr ''abc123'')\<rparr>)))) \<noteq> Some (PStr ''projects/proj1/traces/abc123'')\<close>
proof -
  let ?h = "StructuredLogHandler None (Some ''proj1'')"
  let ?r = "example_record\<lparr>trace := Some (PStr ''abc123'')\<rparr>"
  have l: \<open>handle ?h ?r
     = Inr (Some (''{"message": "hi", "severity": "INFO", "logging.googleapis.com/labels": {}, ''
          @ ''"logging.googleapis.com/trace": "abc123", "logging.googleapis.com/spanId": "", ''
          @ ''"logging.googleapis.com/sourceLocation": {"line": 12, "file": "/app/main.py", "function": "run"}, ''
          @ ''"httpRequest": {} }'' @ [CHR 0x0A]))\<close>
    by code_simp
  obtain k r' where f: "filter' (log_filter ?h) ?r = Inr (k, r')"
    unfolding filter'_Inr
    by (simp add: example_record_def StructuredLogHandler_def CloudLoggingFilter_def
        infer_source_location_unfold py_or_def)
  then have "u_trace r' = Some (PStr ''abc123'')"
    unfolding filter'_Inr by (auto simp: py_or_def)
  with l f show ?thesis
    by (simp add: StructuredLogHandler_def CloudLoggingFilter_def)
qed

text \<open>
  Claim C2, amended. A trace supplied on the record is attached unchanged whether or not a project
  is configured (\<open>None\<close> when it is falsy). Only a trace inferred from the environment is
  rewritten to \<^verbatim>\<open>projects/<project>/traces/<trace>\<close> when a project is configured, and it
  is used only when the record has no trace. The filter takes the inferred trace to be absent, so
  the handler writes the supplied trace as it is, and the empty string when there is none.
\<close>

theorem trace_override_unchanged:
  assumes "filter_body self ih it isp r = Inr (k, r')"
  shows "u_trace r' = Some (py_or
      (case trace r of
         Some v \<Rightarrow> v
       | None \<Rightarrow>
          (case it of
             Some t \<Rightarrow> PStr (case project self of Some p \<Rightarrow> ''projects/'' @ p @ ''/traces/'' @ t | None \<Rightarrow> t)
           | None \<Rightarrow> PNone)) PNone)
    \<and> u_trace_str r' = Some (py_or (the (u_trace r')) (PStr []))
    \<and> (ih = None \<and> it = None \<and> isp = None \<and> self = log_filter h \<longrightarrow>
         u_trace r' = Some (py_or (getattr (trace r) PNone) PNone)
       \<and> handle h r = Inr (Some (GCP_FORMAT (json_string (payload r)) (levelname r)
           (the (u_labels_str r'))
           (py_str (py_or (py_or (getattr (trace r) PNone) PNone) (PStr [])))
           (py_str (the (u_span_id_str r')))
           (the (u_source_location_str r')) (the (u_http_request_str r'))
           @ stack_suffix r @ [CHR 0x0A])))"
proof -
  from assms have a: "u_trace r' = Some (py_or (getattr (trace r) (getattr (case (it, project self) of
              (Some t, Some p) \<Rightarrow> Some (PStr (''projects/'' @ p @ ''/traces/'' @ t))
            | (Some t, None) \<Rightarrow> Some (PStr t)
            | (None, _) \<Rightarrow> None) PNone)) PNone)"
    and b: "u_trace_str r' = Some (py_or (py_or (getattr (trace r) (getattr (case (it, project self) of
              (Some t, Some p) \<Rightarrow> Some (PStr (''projects/'' @ p @ ''/traces/'' @ t))
            | (Some t, None) \<Rightarrow> Some (PStr t)
            | (None, _) \<Rightarrow> None) PNone)) PNone) (PStr []))"
    unfolding filter_body_Inr by auto
  have c: "u_trace r' = Some (py_or
      (case trace r of
         Some v \<Rightarrow> v
       | None \<Rightarrow>
          (case it of
             Some t \<Rightarrow> PStr (case project self of Some p \<Rightarrow> ''projects/'' @ p @ ''/traces/'' @ t | None \<Rightarrow> t)
           | None \<Rightarrow> PNone)) PNone)"
    unfolding a by (simp split: option.splits)
  have d: "u_trace_str r' = Some (py_or (the (u_trace r')) (PStr []))"
    unfolding b a by simp
  have e: "u_trace r' = Some (py_or (getattr (trace r) PNone) PNone)
       \<and> handle h r = Inr (Some (GCP_FORMAT (json_string (payload r)) (levelname r)
           (the (u_labels_str r'))
           (py_str (py_or (py_or (getattr (trace r) PNone) PNone) (PStr [])))
           (py_str (the (u_span_id_str r')))
           (the (u_source_location_str r')) (the (u_http_request_str r'))
           @ stack_suffix r @ [CHR 0x0A]))"
    if "ih = None \<and> it = None \<and> isp = None \<and> self = log_filter h"
  proof -
    from that assms have f: "filter' (log_filter h) r = Inr (k, r')"
      by (simp add: filter'_def)
    from that a b handle_after_filter [OF f] show ?thesis by simp
  qed
  from c d e show ?thesis by blast
qed

theorem trace_override_unchanged_witness:
  "\<not> isl (filter_body (CloudLoggingFilter (Some ''proj1'') None) None (Some ''abc123'') None example_record)
   \<and> u_trace (snd (projr (filter_body (CloudLoggingFilter (Some ''proj1'') None) None (Some ''abc123'') None
        example_record)))
     = Some (PStr ''projects/proj1/traces/abc123'')
   \<and> \<not> isl (filter_body (log_filter (StructuredLogHandler None (Some ''proj1''))) None None None
        (example_record\<lparr>trace := Some (PStr ''abc123'')\<rparr>))
   \<and> u_trace (snd (projr (filter_body (log_filter (StructuredLogHandler None (Some ''proj1''))) None None None
        (example_record\<lparr>trace := Some (PStr ''abc123'')\<rparr>))))
     = Some (PStr ''abc123'')"
proof -
  let ?r = "example_record\<lparr>trace := Some (PStr ''abc123'')\<rparr>"
  obtain k r' where a: "filter_body (CloudLoggingFilter (Some ''proj1'') None) None (Some ''abc123'') None
      example_record = Inr (k, r')"
    unfolding filter_body_Inr
    by (simp add: example_record_def CloudLoggingFilter_def infer_source_location_unfold py_or_def
        json_dumps_Inr dict_unpack2_Inr)
  obtain k2 r2 where b: "filter_body (log_filter (StructuredLogHandler None (Some ''proj1''))) None None None ?r
      = Inr (k2, r2)"
    unfolding filter_body_Inr
    by (simp add: example_record_def StructuredLogHandler_def CloudLoggingFilter_def
        infer_source_location_unfold py_or_def json_dumps_Inr dict_unpack2_Inr)
  from trace_override_unchanged [OF a, of "StructuredLogHandler None (Some ''proj1'')"]
    trace_override_unchanged [OF b, of "StructuredLogHandler None (Some ''proj1'')"] a b
  show ?thesis
    by (simp add: example_record_def CloudLoggingFilter_def py_or_def)
qed

section \<open>The written line as JSON\<close>

text \<open>The line written for the example record is JSON, an object with exactly the seven keys.\<close>

lemma example_line_is_json:
  \<open>handle (StructuredLogHandler None None) example_record
     = Inr (Some (''{"message": "hi", "severity": "INFO", "logging.googleapis.com/labels": {}, ''
          @ ''"logging.googleapis.com/trace": "", "logging.googleapis.com/spanId": "", ''
          @ ''"logging.googleapis.com/sourceLocation": {"line": 12, "file": "/app/main.py", "function": "run"}, ''
          @ ''"httpRequest": {} }'' @ [CHR 0x0A]))
   \<and> object_keys (json_loads (''{"message": "hi", "severity": "INFO", "logging.googleapis.com/labels": {}, ''
          @ ''"logging.googleapis.com/trace": "", "logging.googleapis.com/spanId": "", ''
          @ ''"logging.googleapis.com/sourceLocation": {"line": 12, "file": "/app/main.py", "function": "run"}, ''
          @ ''"httpRequest": {} }'' @ [CHR 0x0A])) = Some documented_keys\<close>
  by code_simp

text \<open>
  Claim C4 says that every line written is JSON and an object with exactly the seven documented
  keys. The code does not do that: the template puts the trace between quotes as it is, with no
  escaping. For the trace \<^verbatim>\<open>a"b\<close> the line written is not JSON, and for the trace
  \<^verbatim>\<open>x", "extra": "y\<close> it is an object with eight keys.
\<close>

theorem line_not_json:
  \<open>handle (StructuredLogHandler None None) (example_record\<lparr>trace := Some (PStr ''a"b'')\<rparr>)
     = Inr (Some (''{"message": "hi", "severity": "INFO", "logging.googleapis.com/labels": {}, ''
          @ ''"logging.googleapis.com/trace": "a"b", "logging.googleapis.com/spanId": "", ''
          @ ''"logging.googleapis.com/sourceLocation": {"line": 12, "file": "/app/main.py", "function": "run"}, ''
          @ ''"httpRequest": {} }'' @ [CHR 0x0A]))
   \<and> json_loads (''{"message": "hi", "severity": "INFO", "logging.googleapis.com/labels": {}, ''
          @ ''"logging.googleapis.com/trace": "a"b", "logging.googleapis.com/spanId": "", ''
          @ ''"logging.googleapis.com/sourceLocation": {"line": 12, "file": "/app/main.py", "function": "run"}, ''
          @ ''"httpRequest": {} }'' @ [CHR 0x0A]) = Malformed
   \<and> handle (StructuredLogHandler None None) (example_record\<lparr>trace := Some (PStr ''x", "extra": "y'')\<rparr>)
     = Inr (Some (''{"message": "hi", "severity": "INFO", "logging.googleapis.com/labels": {}, ''
          @ ''"logging.googleapis.com/trace": "x", "extra": "y", "logging.googleapis.com/spanId": "", ''
          @ ''"logging.googleapis.com/sourceLocation": {"line": 12, "file": "/app/main.py", "function": "run"}, ''
          @ ''"httpRequest": {} }'' @ [CHR 0x0A]))
   \<and> object_keys (json_loads (''{"message": "hi", "severity": "INFO", "logging.googleapis.com/labels": {}, ''
          @ ''"logging.googleapis.com/trace": "x", "extra": "y", "logging.googleapis.com/spanId": "", ''
          @ ''"logging.googleapis.com/sourceLocation": {"line": 12, "file": "/app/main.py", "function": "run"}, ''
          @ ''"httpRequest": {} }'' @ [CHR 0x0A]))
     = Some [''message'', ''severity'', ''logging.googleapis.com/labels'', ''logging.googleapis.com/trace'',
             ''extra'', ''logging.googleapis.com/spanId'', ''logging.googleapis.com/sourceLocation'',
             ''httpRequest'']\<close>
  by code_simp

end
